theory Spec2Isabelle
  imports Complex_Main "HOL-Library.Word"
begin

section \<open>Errors\<close>

text \<open>
  Go returns errors as values. The error values that the package builds or passes on:
  \<^item> \<open>NumError f s e\<close> is \<open>*strconv.NumError{Func: f, Num: s, Err: e}\<close>;
  \<^item> \<open>Errorf m\<close> is \<open>errors.New(m)\<close> or \<open>fmt.Errorf\<close> with the rendered message \<open>m\<close>;
  \<^item> \<open>EncodeError T\<close> is
    \<open>fmt.Errorf("unable to encode JSON elements for %T datatype", sample)\<close> with \<open>sample\<close> of type \<open>T\<close>;
  \<^item> \<open>LibError\<close> is an error returned by \<open>encoding/json\<close> or \<open>time\<close>, whose content the
    package never inspects;
  \<^item> \<open>BadRequestValueError k v e\<close> is the struct of that name with fields \<open>Key\<close>, \<open>Value\<close>, \<open>Err\<close>.
\<close>

datatype num_err = ErrSyntax | ErrRange

datatype gotype = TInterface | TNamed string

datatype error =
    NumError string string num_err
  | Errorf string
  | EncodeError gotype
  | LibError
  | BadRequestValueError string "string option" error

section \<open>strconv: Itoa and Atoi on a 64-bit int\<close>

text \<open>
  The type \<open>int\<close> has 64 bits. \<open>Itoa\<close> writes an integer in decimal; \<open>Atoi\<close> reads an optional
  sign and decimal digits and reports a syntax error or a range error otherwise.
\<close>

definition digit_char :: "nat \<Rightarrow> char" where
  "digit_char d = ''0123456789'' ! d"

fun formatBits :: "nat \<Rightarrow> string" where
  "formatBits n = (if n < 10 then [digit_char n] else formatBits (n div 10) @ [digit_char (n mod 10)])"

declare formatBits.simps [simp del]

definition Itoa :: "int \<Rightarrow> string" where
  "Itoa i = (if i < 0 then CHR ''-'' # formatBits (nat (- i)) else formatBits (nat i))"

definition isDigit :: "char \<Rightarrow> bool" where
  "isDigit c = (48 \<le> (of_char c :: nat) \<and> (of_char c :: nat) \<le> 57)"

definition digit_val :: "char \<Rightarrow> nat" where
  "digit_val c = of_char c - 48"

definition maxUint64 :: nat where
  "maxUint64 = 2 ^ 64 - 1"

text \<open>
  The digit loop of \<open>strconv.ParseUint(s, 10, 64)\<close>: a byte that is not a decimal digit is a
  syntax error, an accumulator that leaves 64 bits is a range error, whichever comes first.
\<close>

fun ParseUint_loop :: "nat \<Rightarrow> string \<Rightarrow> num_err + nat" where
  "ParseUint_loop n [] = Inr n"
| "ParseUint_loop n (c # cs) =
     (if \<not> isDigit c then Inl ErrSyntax
      else if n * 10 + digit_val c > maxUint64 then Inl ErrRange
      else ParseUint_loop (n * 10 + digit_val c) cs)"

definition ParseUint :: "string \<Rightarrow> num_err + nat" where
  "ParseUint s = (if s = [] then Inl ErrSyntax else ParseUint_loop 0 s)"

definition ParseInt :: "string \<Rightarrow> num_err + int" where
  "ParseInt s =
     (case s of
        [] \<Rightarrow> Inl ErrSyntax
      | c # cs \<Rightarrow>
          let neg = (c = CHR ''-'');
              s' = (if c = CHR ''+'' \<or> c = CHR ''-'' then cs else s)
          in (case ParseUint s' of
                Inl e \<Rightarrow> Inl e
              | Inr un \<Rightarrow>
                  if \<not> neg \<and> un \<ge> 2 ^ 63 then Inl ErrRange
                  else if neg \<and> un > 2 ^ 63 then Inl ErrRange
                  else Inr (if neg then - int un else int un)))"

definition Atoi :: "string \<Rightarrow> error + int" where
  "Atoi s = (case ParseInt s of Inl e \<Rightarrow> Inl (NumError ''Atoi'' s e) | Inr n \<Rightarrow> Inr n)"

section \<open>Pagination\<close>

record Pagination =
  Offset :: int
  Limit :: int

text \<open>
  Modelled from the spec: the constants \<open>DefaultOffset\<close> and \<open>DefaultLimit500\<close> are declared
  outside the files at hand; the spec gives the defaults as offset 0 and limit 500.
\<close>

definition DefaultOffset :: int where
  "DefaultOffset = 0"

definition DefaultLimit500 :: int where
  "DefaultLimit500 = 500"

definition Default :: Pagination where
  "Default = \<lparr>Pagination.Offset = 0, Pagination.Limit = DefaultLimit500\<rparr>"

text \<open>
  The request context, as far as \<open>GetFromURLQuery\<close> reads it: the first value of each key of
  the URL query. \<open>DefaultQuery\<close> returns it when the key exists and the default otherwise.
\<close>

type_synonym Context = "string \<rightharpoonup> string"

definition DefaultQuery :: "Context \<Rightarrow> string \<Rightarrow> string \<Rightarrow> string" where
  "DefaultQuery c key defaultValue = (case c key of Some v \<Rightarrow> v | None \<Rightarrow> defaultValue)"

definition zero_Pagination :: Pagination where
  "zero_Pagination = \<lparr>Pagination.Offset = 0, Pagination.Limit = 0\<rparr>"

definition GetFromURLQuery :: "Context \<Rightarrow> Pagination \<times> error option" where
  "GetFromURLQuery c =
     (case Atoi (DefaultQuery c ''offset'' (Itoa DefaultOffset)) of
        Inl err \<Rightarrow> (zero_Pagination, Some (BadRequestValueError ''offset'' None err))
      | Inr offset \<Rightarrow>
          if offset < 0
          then (zero_Pagination,
                Some (BadRequestValueError ''offset'' None
                        (Errorf (''offset ('' @ Itoa offset @ '') cannot be negative''))))
          else (case Atoi (DefaultQuery c ''limit'' (Itoa DefaultLimit500)) of
                  Inl err \<Rightarrow> (zero_Pagination, Some (BadRequestValueError ''limit'' None err))
                | Inr limit \<Rightarrow>
                    if limit < 0
                    then (zero_Pagination,
                          Some (BadRequestValueError ''limit'' None
                                  (Errorf (''limit ('' @ Itoa limit @ '') cannot be negative''))))
                    else (\<lparr>Pagination.Offset = offset, Pagination.Limit = limit\<rparr>, None)))"

section \<open>Pageable\<close>

text \<open>
  A Go slice is \<open>nil\<close> or has a (possibly empty) sequence of elements; \<open>append\<close> to \<open>nil\<close>
  allocates.
\<close>

datatype 'a slice = NilSlice | Slice "'a list"

fun elems :: "'a slice \<Rightarrow> 'a list" where
  "elems NilSlice = []"
| "elems (Slice xs) = xs"

fun append_slice :: "'a slice \<Rightarrow> 'a \<Rightarrow> 'a slice" where
  "append_slice s x = Slice (elems s @ [x])"

text \<open>
  A value of type \<open>interface{}\<close> carries its dynamic type. \<open>AnySlice T s\<close> is a slice of
  static type \<open>[]T\<close>; \<open>AnyValue T v\<close> is a value of any other dynamic type \<open>T\<close>; \<open>AnyNil\<close>
  is the nil interface. Values themselves are of an arbitrary type \<open>'v\<close>.
\<close>

datatype 'v any = AnyNil | AnySlice gotype "'v slice" | AnyValue gotype 'v

record 'v Pageable =
  Limit :: int
  Offset :: int
  Total :: "64 word"
  Data :: "'v any"

text \<open>The type parameter \<open>T\<close> of the generic functions is an explicit argument.\<close>

definition BuildPageable :: "gotype \<Rightarrow> Pagination \<Rightarrow> 64 word \<Rightarrow> 'v slice \<Rightarrow> 'v Pageable" where
  "BuildPageable T page totalRows data =
     \<lparr>Pageable.Limit = Pagination.Limit page, Pageable.Offset = Pagination.Offset page,
      Total = totalRows, Data = AnySlice T data\<rparr>"

text \<open>
  \<open>json.Marshal\<close> and \<open>json.Unmarshal\<close> belong to the standard library; the loop takes them
  as arguments. \<open>marshal v\<close> returns the bytes and the error; \<open>unmarshal b x\<close> decodes \<open>b\<close>
  into the variable holding \<open>x\<close> and returns its new content and the error. \<open>zero\<close> is the
  zero value of \<open>T\<close>, the content of \<open>sample\<close> at the start of each iteration.
\<close>

fun PageableToSlice_loop ::
  "gotype \<Rightarrow> 'v \<Rightarrow> ('v \<Rightarrow> string \<times> error option) \<Rightarrow> (string \<Rightarrow> 'v \<Rightarrow> 'v \<times> error option)
   \<Rightarrow> 'v slice \<Rightarrow> 'v list \<Rightarrow> 'v slice \<times> error option" where
  "PageableToSlice_loop T zero marshal unmarshal data [] = (data, None)"
| "PageableToSlice_loop T zero marshal unmarshal data (v # vs) =
     (case marshal v of
        (jsonBytes, Some err) \<Rightarrow> (Slice [], Some (EncodeError T))
      | (jsonBytes, None) \<Rightarrow>
          (case unmarshal jsonBytes zero of
             (sample, Some err) \<Rightarrow> (Slice [], Some (EncodeError T))
           | (sample, None) \<Rightarrow>
               PageableToSlice_loop T zero marshal unmarshal (append_slice data sample) vs))"

definition PageableToSlice ::
  "gotype \<Rightarrow> 'v \<Rightarrow> ('v \<Rightarrow> string \<times> error option) \<Rightarrow> (string \<Rightarrow> 'v \<Rightarrow> 'v \<times> error option)
   \<Rightarrow> 'v Pageable \<Rightarrow> 'v slice \<times> error option" where
  "PageableToSlice T zero marshal unmarshal pageable =
     (case Data pageable of
        AnySlice TInterface sliceInterface \<Rightarrow>
          PageableToSlice_loop T zero marshal unmarshal NilSlice (elems sliceInterface)
      | _ \<Rightarrow>
          (Slice [], Some (Errorf ''unable to cast data field of pageable to a slice of interface'')))"

section \<open>NullInt64 and the conversion to 32 bits\<close>

text \<open>\<open>NullInt\<close> embeds \<open>sql.NullInt64\<close>, whose fields are these.\<close>

record NullInt64 =
  Int64 :: "64 word"
  Valid :: bool

definition MaxInt32 :: int where
  "MaxInt32 = 2 ^ 31 - 1"

text \<open>
  \<open>MapToInt32\<close> returns a pointer and an error: \<open>None\<close> is the nil pointer, and the
  conversion \<open>int32(ni.Int64)\<close> keeps the low 32 bits.
\<close>

definition NullInt_MapToInt32 :: "NullInt64 \<Rightarrow> 32 word option \<times> error option" where
  "NullInt_MapToInt32 ni =
     (if \<not> NullInt64.Valid ni then (None, None)
      else if sint (Int64 ni) > MaxInt32
      then (None, Some (Errorf (''could not convert NullInt to *int32, value ''
                                 @ Itoa (sint (Int64 ni)) @ '' too high'')))
      else (Some (ucast (Int64 ni)), None))"

section \<open>encoding/json on booleans, integers and strings\<close>

text \<open>
  The wrappers call \<open>json.Marshal\<close> and \<open>json.Unmarshal\<close> of the standard library at the
  types \<open>bool\<close>, \<open>int64\<close>, \<open>*int64\<close> and \<open>string\<close>. These are modelled here on byte strings.
  \<open>json.Unmarshal b x\<close> returns the new content of the variable it decodes into and the
  error: the JSON literal \<open>null\<close> leaves a \<open>bool\<close> or a \<open>string\<close> unchanged and reports no
  error, and a failed decoding leaves the variable unchanged. The content of the errors is
  not modelled. Input may be surrounded by JSON white space.
\<close>

definition byte :: "char \<Rightarrow> nat" where
  "byte c = of_char c"

definition isSpace :: "char \<Rightarrow> bool" where
  "isSpace c = (byte c = 0x20 \<or> byte c = 0x09 \<or> byte c = 0x0A \<or> byte c = 0x0D)"

definition trimSpace :: "string \<Rightarrow> string" where
  "trimSpace s = rev (dropWhile isSpace (rev (dropWhile isSpace s)))"

definition json_Marshal_nil :: "string \<times> error option" where
  "json_Marshal_nil = (''null'', None)"

definition json_Marshal_bool :: "bool \<Rightarrow> string \<times> error option" where
  "json_Marshal_bool v = (if v then ''true'' else ''false'', None)"

definition json_Unmarshal_bool :: "string \<Rightarrow> bool \<Rightarrow> bool \<times> error option" where
  "json_Unmarshal_bool b x =
     (let t = trimSpace b in
      if t = ''true'' then (True, None)
      else if t = ''false'' then (False, None)
      else if t = ''null'' then (x, None)
      else (x, Some LibError))"

definition json_Marshal_int64 :: "64 word \<Rightarrow> string \<times> error option" where
  "json_Marshal_int64 v = (Itoa (sint v), None)"

text \<open>
  A JSON number that \<open>strconv.ParseInt\<close> accepts: an optional minus sign and decimal
  digits without a leading zero.
\<close>

definition json_digits :: "string \<Rightarrow> bool" where
  "json_digits ds = (ds \<noteq> [] \<and> list_all isDigit ds \<and> (hd ds = CHR ''0'' \<longrightarrow> tl ds = []))"

definition json_integer :: "string \<Rightarrow> bool" where
  "json_integer t = (case t of [] \<Rightarrow> False | c # cs \<Rightarrow> if c = CHR ''-'' then json_digits cs else json_digits t)"

text \<open>
  Decoding into a variable \<open>var x *int64\<close> that starts as nil: \<open>Inr None\<close> is nil after the
  literal \<open>null\<close>, \<open>Inr (Some n)\<close> a pointer to \<open>n\<close>, \<open>Inl\<close> an error (the caller drops
  \<open>x\<close> then).
\<close>

definition json_Unmarshal_int64_ptr :: "string \<Rightarrow> error + 64 word option" where
  "json_Unmarshal_int64_ptr b =
     (let t = trimSpace b in
      if t = ''null'' then Inr None
      else if json_integer t
      then (case ParseInt t of Inl e \<Rightarrow> Inl LibError | Inr n \<Rightarrow> Inr (Some (word_of_int n)))
      else Inl LibError)"

subsection \<open>Strings\<close>

definition hex :: "nat \<Rightarrow> char" where
  "hex d = ''0123456789abcdef'' ! d"

definition htmlSafe :: "char \<Rightarrow> bool" where
  "htmlSafe c = (0x20 \<le> byte c \<and> byte c < 0x80 \<and> byte c \<noteq> 0x22 \<and> byte c \<noteq> 0x26
                 \<and> byte c \<noteq> 0x3C \<and> byte c \<noteq> 0x3E \<and> byte c \<noteq> 0x5C)"

definition escape_ascii :: "char \<Rightarrow> string" where
  "escape_ascii c =
     (if htmlSafe c then [c]
      else if byte c = 0x5C \<or> byte c = 0x22 then [CHR 0x5C, c]
      else if byte c = 0x08 then [CHR 0x5C, CHR ''b'']
      else if byte c = 0x0C then [CHR 0x5C, CHR ''f'']
      else if byte c = 0x0A then [CHR 0x5C, CHR ''n'']
      else if byte c = 0x0D then [CHR 0x5C, CHR ''r'']
      else if byte c = 0x09 then [CHR 0x5C, CHR ''t'']
      else [CHR 0x5C, CHR ''u'', CHR ''0'', CHR ''0'', hex (byte c div 16), hex (byte c mod 16)])"

definition cont :: "char \<Rightarrow> bool" where
  "cont c = (0x80 \<le> byte c \<and> byte c \<le> 0xBF)"

text \<open>
  The number of bytes of the UTF-8 encoding at the head of a byte string, and 0 where
  \<open>utf8.DecodeRune\<close> reports \<open>RuneError\<close> of width 1.
\<close>

fun utf8_size :: "string \<Rightarrow> nat" where
  "utf8_size [] = 0"
| "utf8_size (c0 # cs) =
     (if byte c0 < 0x80 then 1
      else if 0xC2 \<le> byte c0 \<and> byte c0 \<le> 0xDF
      then (case cs of c1 # _ \<Rightarrow> if cont c1 then 2 else 0 | _ \<Rightarrow> 0)
      else if 0xE0 \<le> byte c0 \<and> byte c0 \<le> 0xEF
      then (case cs of
              c1 # c2 # _ \<Rightarrow>
                if (if byte c0 = 0xE0 then 0xA0 else 0x80) \<le> byte c1
                   \<and> byte c1 \<le> (if byte c0 = 0xED then 0x9F else 0xBF) \<and> cont c2
                then 3 else 0
            | _ \<Rightarrow> 0)
      else if 0xF0 \<le> byte c0 \<and> byte c0 \<le> 0xF4
      then (case cs of
              c1 # c2 # c3 # _ \<Rightarrow>
                if (if byte c0 = 0xF0 then 0x90 else 0x80) \<le> byte c1
                   \<and> byte c1 \<le> (if byte c0 = 0xF4 then 0x8F else 0xBF) \<and> cont c2 \<and> cont c3
                then 4 else 0
            | _ \<Rightarrow> 0)
      else 0)"

definition replacement :: string where
  "replacement = [CHR 0x5C, CHR ''u'', CHR ''f'', CHR ''f'', CHR ''f'', CHR ''d'']"

text \<open>
  The body of \<open>appendString\<close> as \<open>json.Marshal\<close> uses it, with the escaping of the ampersand
  and the angle brackets: ASCII bytes are copied or escaped, an invalid UTF-8 byte becomes the
  escape of U+FFFD, U+2028 and U+2029 are escaped, every other encoded rune is copied.
\<close>

function appendString :: "string \<Rightarrow> string" where
  "appendString [] = []"
| "appendString (c # cs) =
     (if byte c < 0x80 then escape_ascii c @ appendString cs
      else if utf8_size (c # cs) = 0 then replacement @ appendString cs
      else if byte c = 0xE2 \<and> map byte (take 2 cs) = [0x80, 0xA8]
      then [CHR 0x5C, CHR ''u'', CHR ''2'', CHR ''0'', CHR ''2'', CHR ''8''] @ appendString (drop 2 cs)
      else if byte c = 0xE2 \<and> map byte (take 2 cs) = [0x80, 0xA9]
      then [CHR 0x5C, CHR ''u'', CHR ''2'', CHR ''0'', CHR ''2'', CHR ''9''] @ appendString (drop 2 cs)
      else take (utf8_size (c # cs)) (c # cs) @ appendString (drop (utf8_size (c # cs) - 1) cs))"
  by pat_completeness auto
termination
  by (relation "measure length") auto

definition json_Marshal_string :: "string \<Rightarrow> string \<times> error option" where
  "json_Marshal_string s = (CHR 0x22 # appendString s @ [CHR 0x22], None)"

definition hex_val :: "char \<Rightarrow> nat option" where
  "hex_val c =
     (if 0x30 \<le> byte c \<and> byte c \<le> 0x39 then Some (byte c - 0x30)
      else if 0x61 \<le> byte c \<and> byte c \<le> 0x66 then Some (byte c - 0x61 + 10)
      else if 0x41 \<le> byte c \<and> byte c \<le> 0x46 then Some (byte c - 0x41 + 10)
      else None)"

text \<open>\<open>getu4\<close> reads a four-digit hexadecimal escape at the head of a byte string.\<close>

fun getu4 :: "string \<Rightarrow> nat option" where
  "getu4 (b # u # h1 # h2 # h3 # h4 # _) =
     (if byte b = 0x5C \<and> u = CHR ''u''
      then (case (hex_val h1, hex_val h2, hex_val h3, hex_val h4) of
              (Some d1, Some d2, Some d3, Some d4) \<Rightarrow> Some (((d1 * 16 + d2) * 16 + d3) * 16 + d4)
            | _ \<Rightarrow> None)
      else None)"
| "getu4 _ = None"

definition EncodeRune :: "nat \<Rightarrow> string" where
  "EncodeRune r =
     (if r \<le> 0x7F then [char_of r]
      else if r \<le> 0x7FF then [char_of (0xC0 + r div 64), char_of (0x80 + r mod 64)]
      else if r > 0x10FFFF \<or> (0xD800 \<le> r \<and> r \<le> 0xDFFF) then [CHR 0xEF, CHR 0xBF, CHR 0xBD]
      else if r \<le> 0xFFFF
      then [char_of (0xE0 + r div 4096), char_of (0x80 + r div 64 mod 64), char_of (0x80 + r mod 64)]
      else [char_of (0xF0 + r div 262144), char_of (0x80 + r div 4096 mod 64),
            char_of (0x80 + r div 64 mod 64), char_of (0x80 + r mod 64)])"

definition simple_escape :: "char \<Rightarrow> char option" where
  "simple_escape e =
     (if byte e = 0x22 \<or> byte e = 0x5C \<or> e = CHR ''/'' then Some e
      else if e = CHR ''b'' then Some (CHR 0x08)
      else if e = CHR ''f'' then Some (CHR 0x0C)
      else if e = CHR ''n'' then Some (CHR 0x0A)
      else if e = CHR ''r'' then Some (CHR 0x0D)
      else if e = CHR ''t'' then Some (CHR 0x09)
      else None)"

text \<open>
  Decoding of a JSON string literal after its opening quote; the closing quote has to be the
  last byte. \<open>None\<close> is a literal that the scanner rejects. A surrogate escape combines with
  a following low surrogate escape and is the replacement rune otherwise; invalid UTF-8 is
  replaced.
\<close>

function unquote :: "string \<Rightarrow> string option" where
  "unquote [] = None"
| "unquote (c # cs) =
     (if byte c = 0x22 then (if cs = [] then Some [] else None)
      else if byte c = 0x5C
      then (case cs of
              [] \<Rightarrow> None
            | e # r \<Rightarrow>
                if e = CHR ''u''
                then (case getu4 (c # cs) of
                        None \<Rightarrow> None
                      | Some rr \<Rightarrow>
                          if 0xD800 \<le> rr \<and> rr < 0xE000
                          then (case getu4 (drop 4 r) of
                                  None \<Rightarrow> map_option (append (EncodeRune 0xFFFD)) (unquote (drop 4 r))
                                | Some rr1 \<Rightarrow>
                                    if rr < 0xDC00 \<and> 0xDC00 \<le> rr1 \<and> rr1 < 0xE000
                                    then map_option
                                           (append (EncodeRune ((rr - 0xD800) * 1024 + (rr1 - 0xDC00) + 0x10000)))
                                           (unquote (drop 10 r))
                                    else map_option (append (EncodeRune 0xFFFD)) (unquote (drop 4 r)))
                          else map_option (append (EncodeRune rr)) (unquote (drop 4 r)))
                else (case simple_escape e of
                        None \<Rightarrow> None
                      | Some x \<Rightarrow> map_option (Cons x) (unquote r)))
      else if byte c < 0x20 then None
      else if byte c < 0x80 then map_option (Cons c) (unquote cs)
      else if utf8_size (c # cs) = 0 then map_option (append (EncodeRune 0xFFFD)) (unquote cs)
      else map_option (append (take (utf8_size (c # cs)) (c # cs)))
             (unquote (drop (utf8_size (c # cs) - 1) cs)))"
  by pat_completeness auto
termination
  by (relation "measure length") auto

definition json_Unmarshal_string :: "string \<Rightarrow> string \<Rightarrow> string \<times> error option" where
  "json_Unmarshal_string b x =
     (let t = trimSpace b in
      if t = ''null'' then (x, None)
      else (case t of
              [] \<Rightarrow> (x, Some LibError)
            | q # rest \<Rightarrow>
                if byte q = 0x22
                then (case unquote rest of None \<Rightarrow> (x, Some LibError) | Some s \<Rightarrow> (s, None))
                else (x, Some LibError)))"

subsection \<open>Numbers of type float64\<close>

text \<open>
  Values of type \<open>float64\<close> are of an arbitrary type \<open>'f\<close>, and the floating-point operations
  that the wrappers rely on are a parameter:
  \<^item> \<open>f_zero\<close> is the zero value and \<open>f_is_zero x\<close> the comparison \<open>x == 0\<close>;
  \<^item> \<open>f_to_int64 x\<close> is the conversion \<open>int64(x)\<close>;
  \<^item> \<open>f_format x\<close> is \<open>json.Marshal(x)\<close>, which fails on a value that JSON cannot represent;
  \<^item> \<open>f_parse t\<close> is the number that the decoder reads from the JSON number literal \<open>t\<close>, and
    \<open>None\<close> where \<open>t\<close> is no number literal or is out of range.
  The treatment of \<open>null\<close> and of white space is the one of the other types.
\<close>

record 'f float64_ops =
  f_zero :: 'f
  f_is_zero :: "'f \<Rightarrow> bool"
  f_to_int64 :: "'f \<Rightarrow> 64 word"
  f_format :: "'f \<Rightarrow> string \<times> error option"
  f_parse :: "string \<Rightarrow> 'f option"

definition json_Marshal_float64 :: "'f float64_ops \<Rightarrow> 'f \<Rightarrow> string \<times> error option" where
  "json_Marshal_float64 L v = f_format L v"

definition json_Unmarshal_float64 :: "'f float64_ops \<Rightarrow> string \<Rightarrow> 'f \<Rightarrow> 'f \<times> error option" where
  "json_Unmarshal_float64 L b x =
     (let t = trimSpace b in
      if t = ''null'' then (x, None)
      else (case f_parse L t of None \<Rightarrow> (x, Some LibError) | Some f \<Rightarrow> (f, None)))"

definition json_Unmarshal_float64_ptr :: "'f float64_ops \<Rightarrow> string \<Rightarrow> error + 'f option" where
  "json_Unmarshal_float64_ptr L b =
     (let t = trimSpace b in
      if t = ''null'' then Inr None
      else (case f_parse L t of None \<Rightarrow> Inl LibError | Some f \<Rightarrow> Inr (Some f)))"

section \<open>time.Time\<close>

text \<open>
  A \<open>time.Time\<close> is an instant, counted in seconds and nanoseconds from January 1 of year 1,
  00:00:00 UTC, an optional monotonic clock reading and a pointer to a location (\<open>None\<close> is
  UTC). The operator \<open>==\<close> of Go compares all of these and is the equality of the record.
  \<open>After\<close> and \<open>Before\<close> compare the monotonic readings when both times have one and the
  instants otherwise. \<open>time.Parse\<close> and \<open>Time.Format\<close> are arguments of the functions that
  call them.
\<close>

record Time =
  seconds :: int
  nanoseconds :: int
  monotonic :: "int option"
  location :: "nat option"

definition IsZero :: "Time \<Rightarrow> bool" where
  "IsZero t = (seconds t = 0 \<and> nanoseconds t = 0)"

definition After :: "Time \<Rightarrow> Time \<Rightarrow> bool" where
  "After t u =
     (case (monotonic t, monotonic u) of
        (Some mt, Some mu) \<Rightarrow> mt > mu
      | _ \<Rightarrow> seconds t > seconds u \<or> seconds t = seconds u \<and> nanoseconds t > nanoseconds u)"

definition Before :: "Time \<Rightarrow> Time \<Rightarrow> bool" where
  "Before t u =
     (case (monotonic t, monotonic u) of
        (Some mt, Some mu) \<Rightarrow> mt < mu
      | _ \<Rightarrow> seconds t < seconds u \<or> seconds t = seconds u \<and> nanoseconds t < nanoseconds u)"

definition RFC3339 :: string where
  "RFC3339 = ''2006-01-02T15:04:05Z07:00''"

definition quoted :: "string \<Rightarrow> string" where
  "quoted s = CHR 0x22 # s @ [CHR 0x22]"

section \<open>Nullable wrappers\<close>

text \<open>
  Each wrapper embeds a struct of \<open>database/sql\<close> and has the fields of that struct: the value
  and the flag \<open>Valid\<close>. A method with a pointer receiver returns the new content of the
  receiver together with its error.
\<close>

record NullBool =
  Bool :: bool
  Valid :: bool

record 'f NullFloat64 =
  Float64 :: 'f
  Valid :: bool

record NullString =
  String :: string
  Valid :: bool

record NullTime =
  Time :: Time
  Valid :: bool

type_synonym NullInt = NullInt64
type_synonym JSONNullInt64 = NullInt64
type_synonym 'f NullFloat = "'f NullFloat64"
type_synonym 'f JSONNullFloat64 = "'f NullFloat64"
type_synonym NullEmptyString = NullString

subsection \<open>NullBool\<close>

definition NullBool_MarshalJSON :: "NullBool \<Rightarrow> string \<times> error option" where
  "NullBool_MarshalJSON nb =
     (if \<not> NullBool.Valid nb then (''null'', None) else json_Marshal_bool (Bool nb))"

definition NullBool_UnmarshalJSON :: "NullBool \<Rightarrow> string \<Rightarrow> NullBool \<times> error option" where
  "NullBool_UnmarshalJSON nb b =
     (if b = ''null'' then (nb\<lparr>NullBool.Valid := False\<rparr>, None)
      else (case json_Unmarshal_bool b (Bool nb) of
              (v, err) \<Rightarrow> (nb\<lparr>Bool := v, NullBool.Valid := (err = None)\<rparr>, err)))"

subsection \<open>NullInt\<close>

definition NullInt_MarshalJSON :: "NullInt \<Rightarrow> string \<times> error option" where
  "NullInt_MarshalJSON ni =
     (if \<not> NullInt64.Valid ni \<or> Int64 ni = 0 then (''null'', None) else json_Marshal_int64 (Int64 ni))"

definition NullInt_UnmarshalJSON :: "'f float64_ops \<Rightarrow> NullInt \<Rightarrow> string \<Rightarrow> NullInt \<times> error option" where
  "NullInt_UnmarshalJSON L ni b =
     (case json_Unmarshal_float64 L b (f_zero L) of
        (f, err) \<Rightarrow>
          (let ni1 = ni\<lparr>Int64 := f_to_int64 L f, NullInt64.Valid := (err = None)\<rparr>
           in (if b = ''null'' then ni1\<lparr>NullInt64.Valid := False\<rparr> else ni1, err)))"

subsection \<open>NullFloat\<close>

definition NullFloat_MarshalJSON :: "'f float64_ops \<Rightarrow> 'f NullFloat \<Rightarrow> string \<times> error option" where
  "NullFloat_MarshalJSON L nf =
     (if \<not> NullFloat64.Valid nf \<or> f_is_zero L (Float64 nf) then (''null'', None)
      else json_Marshal_float64 L (Float64 nf))"

definition NullFloat_UnmarshalJSON ::
  "'f float64_ops \<Rightarrow> 'f NullFloat \<Rightarrow> string \<Rightarrow> 'f NullFloat \<times> error option" where
  "NullFloat_UnmarshalJSON L nf b =
     (case json_Unmarshal_float64 L b (Float64 nf) of
        (f, err) \<Rightarrow>
          (let nf1 = nf\<lparr>Float64 := f, NullFloat64.Valid := (err = None)\<rparr>
           in (if b = ''null'' then nf1\<lparr>NullFloat64.Valid := False\<rparr> else nf1, err)))"

subsection \<open>NullString and NullEmptyString\<close>

definition NullString_MarshalJSON :: "NullString \<Rightarrow> string \<times> error option" where
  "NullString_MarshalJSON ns =
     (if \<not> NullString.Valid ns \<or> String ns = [] then (''null'', None)
      else json_Marshal_string (String ns))"

definition NullString_UnmarshalJSON :: "NullString \<Rightarrow> string \<Rightarrow> NullString \<times> error option" where
  "NullString_UnmarshalJSON ns b =
     (if b = ''null'' \<or> b = [] then (ns\<lparr>NullString.Valid := False\<rparr>, None)
      else (case json_Unmarshal_string b (String ns) of
              (s, err) \<Rightarrow> (ns\<lparr>String := s, NullString.Valid := (err = None)\<rparr>, err)))"

definition NullEmptyString_MarshalJSON :: "NullEmptyString \<Rightarrow> string \<times> error option" where
  "NullEmptyString_MarshalJSON ns =
     (if \<not> NullString.Valid ns then json_Marshal_string [] else json_Marshal_string (String ns))"

definition NullEmptyString_UnmarshalJSON ::
  "NullEmptyString \<Rightarrow> string \<Rightarrow> NullEmptyString \<times> error option" where
  "NullEmptyString_UnmarshalJSON ns b =
     (case json_Unmarshal_string b (String ns) of
        (s, err) \<Rightarrow> (ns\<lparr>String := s, NullString.Valid := (err = None)\<rparr>, err))"

subsection \<open>NullTime\<close>

definition NullTime_MarshalJSON :: "(Time \<Rightarrow> string \<Rightarrow> string) \<Rightarrow> NullTime \<Rightarrow> string \<times> error option" where
  "NullTime_MarshalJSON Format nt =
     (if \<not> NullTime.Valid nt \<or> IsZero (Time nt) then (''null'', None)
      else json_Marshal_string (Format (Time nt) ''2006-01-02''))"

definition NullTime_UnmarshalJSON ::
  "(string \<Rightarrow> string \<Rightarrow> Time \<times> error option) \<Rightarrow> NullTime \<Rightarrow> string \<Rightarrow> NullTime \<times> error option" where
  "NullTime_UnmarshalJSON Parse nt b =
     (if b = ''null'' then (nt\<lparr>NullTime.Valid := False\<rparr>, None)
      else (case Parse (quoted ''2006-01-02'') b of
              (t, None) \<Rightarrow> (nt\<lparr>Time := t, NullTime.Valid := True\<rparr>, None)
            | (t, Some _) \<Rightarrow>
                (case Parse (quoted RFC3339) b of
                   (t', None) \<Rightarrow> (nt\<lparr>Time := t', NullTime.Valid := True\<rparr>, None)
                 | (t', Some err) \<Rightarrow> (nt\<lparr>Time := t'\<rparr>, Some err))))"

definition AfterOrEqual :: "NullTime \<Rightarrow> NullTime \<Rightarrow> bool" where
  "AfterOrEqual nt t =
     (if \<not> IsZero (Time nt) \<and> IsZero (Time t) then False
      else Time nt = Time t \<or> After (Time nt) (Time t))"

definition BeforeOrEqual :: "NullTime \<Rightarrow> NullTime \<Rightarrow> bool" where
  "BeforeOrEqual nt t =
     (if IsZero (Time nt) \<and> \<not> IsZero (Time t) then False
      else if \<not> IsZero (Time nt) \<and> IsZero (Time t) then True
      else Time nt = Time t \<or> Before (Time nt) (Time t))"

subsection \<open>JSONNullInt64 and JSONNullFloat64\<close>

definition JSONNullInt64_MarshalJSON :: "JSONNullInt64 \<Rightarrow> string \<times> error option" where
  "JSONNullInt64_MarshalJSON v =
     (if NullInt64.Valid v then json_Marshal_int64 (Int64 v) else json_Marshal_nil)"

definition JSONNullInt64_UnmarshalJSON :: "JSONNullInt64 \<Rightarrow> string \<Rightarrow> JSONNullInt64 \<times> error option" where
  "JSONNullInt64_UnmarshalJSON v data =
     (case json_Unmarshal_int64_ptr data of
        Inl err \<Rightarrow> (v, Some err)
      | Inr (Some x) \<Rightarrow> (v\<lparr>NullInt64.Valid := True, Int64 := x\<rparr>, None)
      | Inr None \<Rightarrow> (v\<lparr>NullInt64.Valid := False\<rparr>, None))"

definition JSONNullFloat64_MarshalJSON :: "'f float64_ops \<Rightarrow> 'f JSONNullFloat64 \<Rightarrow> string \<times> error option" where
  "JSONNullFloat64_MarshalJSON L v =
     (if NullFloat64.Valid v then json_Marshal_float64 L (Float64 v) else json_Marshal_nil)"

definition JSONNullFloat64_UnmarshalJSON ::
  "'f float64_ops \<Rightarrow> 'f JSONNullFloat64 \<Rightarrow> string \<Rightarrow> 'f JSONNullFloat64 \<times> error option" where
  "JSONNullFloat64_UnmarshalJSON L v data =
     (case json_Unmarshal_float64_ptr L data of
        Inl err \<Rightarrow> (v, Some err)
      | Inr (Some x) \<Rightarrow> (v\<lparr>NullFloat64.Valid := True, Float64 := x\<rparr>, None)
      | Inr None \<Rightarrow> (v\<lparr>NullFloat64.Valid := False\<rparr>, None))"


section \<open>NullFloat.Scan\<close>

text \<open>
  \<open>Scan\<close> computes on \<open>float64\<close> values. The arithmetic is a parameter, on values of an
  arbitrary type \<open>'f\<close>:
  \<^item> \<open>a_zero\<close> is the constant \<open>0.\<close> and \<open>a_eq_zero x\<close> the comparison \<open>x == 0\<close>;
  \<^item> \<open>a_IsNaN\<close> is \<open>math.IsNaN\<close>, \<open>a_Pow10\<close> is \<open>math.Pow10\<close>, \<open>a_mul\<close> and \<open>a_div\<close> are the
    product and the quotient of two \<open>float64\<close>;
  \<^item> \<open>a_trunc x\<close> is the integer part of \<open>x\<close>, rounded toward zero, as a mathematical
    integer, and \<open>None\<close> when \<open>x\<close> has none (an infinity, a NaN); \<open>a_float64 n\<close> is the
    \<open>float64\<close> of the integer \<open>n\<close>;
  \<^item> \<open>a_int_overflow x\<close> is what the conversion \<open>int(x)\<close> gives when \<open>x\<close> has no integer
    part or one that is no 64-bit integer, which Go leaves to the implementation.

  \<open>int\<close> has 64 bits: the conversion \<open>int(x)\<close> gives the integer part of \<open>x\<close> when it is a
  64-bit integer, and \<open>float64(n)\<close> reads the 64 bits of \<open>n\<close> as a signed integer.
\<close>

record 'f float64_arith =
  a_zero :: 'f
  a_eq_zero :: "'f \<Rightarrow> bool"
  a_IsNaN :: "'f \<Rightarrow> bool"
  a_Pow10 :: "nat \<Rightarrow> 'f"
  a_mul :: "'f \<Rightarrow> 'f \<Rightarrow> 'f"
  a_div :: "'f \<Rightarrow> 'f \<Rightarrow> 'f"
  a_trunc :: "'f \<Rightarrow> int option"
  a_float64 :: "int \<Rightarrow> 'f"
  a_int_overflow :: "'f \<Rightarrow> 64 word"

definition int_of_float64 :: "'f float64_arith \<Rightarrow> 'f \<Rightarrow> 64 word" where
  "int_of_float64 A x =
     (case a_trunc A x of
        Some k \<Rightarrow> if - (2 ^ 63) \<le> k \<and> k < 2 ^ 63 then word_of_int k else a_int_overflow A x
      | None \<Rightarrow> a_int_overflow A x)"

definition float64_of_int :: "'f float64_arith \<Rightarrow> 64 word \<Rightarrow> 'f" where
  "float64_of_int A n = a_float64 A (sint n)"

text \<open>
  \<open>sql.NullFloat64.Scan\<close> on a value that is not nil, into a fresh variable: the flag is set
  and \<open>convertAssign\<close>, an argument here, stores the number that the driver value stands
  for, or fails.
\<close>

definition sql_NullFloat64_Scan ::
  "'f float64_arith \<Rightarrow> ('v \<Rightarrow> 'f \<Rightarrow> 'f \<times> error option) \<Rightarrow> 'v \<Rightarrow> 'f NullFloat64 \<times> error option" where
  "sql_NullFloat64_Scan A convertAssign v =
     (case convertAssign v (a_zero A) of
        (f, err) \<Rightarrow> (\<lparr>Float64 = f, Valid = True\<rparr>, err))"

text \<open>
  The scanned value is \<open>None\<close> when it is the nil interface. On an error of the driver
  conversion the receiver is left as it is.
\<close>

definition NullFloat_Scan ::
  "'f float64_arith \<Rightarrow> ('v \<Rightarrow> 'f \<Rightarrow> 'f \<times> error option) \<Rightarrow> 'f NullFloat \<Rightarrow> 'v option
   \<Rightarrow> 'f NullFloat \<times> error option" where
  "NullFloat_Scan A convertAssign nf v =
     (case v of
        None \<Rightarrow> (\<lparr>Float64 = a_zero A, Valid = False\<rparr>, None)
      | Some x \<Rightarrow>
          (case sql_NullFloat64_Scan A convertAssign x of
             (i, Some err) \<Rightarrow> (nf, Some err)
           | (i, None) \<Rightarrow>
               if a_IsNaN A (Float64 i)
               then (nf\<lparr>Float64 := a_zero A, NullFloat64.Valid := False\<rparr>, None)
               else (let y = a_div A
                               (float64_of_int A (int_of_float64 A (a_mul A (Float64 i) (a_Pow10 A 4))))
                               (a_Pow10 A 4)
                     in (nf\<lparr>Float64 := y, NullFloat64.Valid := \<not> a_eq_zero A y\<rparr>, None))))"


section \<open>Library behaviour at the inputs of the examples\<close>

text \<open>
  The examples below run the wrappers on concrete inputs. For them the floating-point
  operations are needed on whole numbers only, where a \<open>float64\<close> is written in JSON as the
  integer it is: \<open>whole_numbers\<close> represents such a number by its value. It rejects every
  number literal with a fraction or an exponent, which the decoder of Go accepts.
\<close>

definition whole_numbers :: "int float64_ops" where
  "whole_numbers =
     \<lparr>f_zero = 0,
      f_is_zero = (\<lambda>x. x = 0),
      f_to_int64 = word_of_int,
      f_format = (\<lambda>x. (Itoa x, None)),
      f_parse = (\<lambda>t. if json_integer t
                      then (case ParseInt t of Inl e \<Rightarrow> None | Inr n \<Rightarrow> Some n)
                      else None)\<rparr>"

text \<open>
  January 1, 2020, 00:00:00 UTC, and the results of \<open>Format\<close> and \<open>time.Parse\<close> for this day:
  \<open>Format_2020\<close> is \<open>Format\<close> on it, and \<open>Parse_2020\<close> reads the day in the layout
  \<open>"2006-01-02"\<close> and the same instant in the layout RFC3339; every other value counts as
  unreadable, with the zero time as result.
\<close>

definition midnight_2020 :: Time where
  "midnight_2020 = \<lparr>seconds = 63713433600, nanoseconds = 0, monotonic = None, location = None\<rparr>"

definition zero_Time :: Time where
  "zero_Time = \<lparr>seconds = 0, nanoseconds = 0, monotonic = None, location = None\<rparr>"

definition Format_2020 :: "Time \<Rightarrow> string \<Rightarrow> string" where
  "Format_2020 t layout = (if layout = ''2006-01-02'' then ''2020-01-01'' else ''2020-01-01T00:00:00Z'')"

definition Parse_2020 :: "string \<Rightarrow> string \<Rightarrow> Time \<times> error option" where
  "Parse_2020 layout v =
     (if layout = quoted ''2006-01-02'' \<and> v = quoted ''2020-01-01'' then (midnight_2020, None)
      else if layout = quoted RFC3339 \<and> v = quoted ''2020-01-01T00:00:00Z'' then (midnight_2020, None)
      else (zero_Time, Some LibError))"

text \<open>
  For the example of \<open>Scan\<close>: the arithmetic of the rational numbers, without rounding and
  without NaN, where a conversion \<open>int(x)\<close> that leaves the 64 bits gives \<open>w\<close>; and a driver
  that hands over a \<open>float64\<close> as it is. The numbers \<open>10 ^ 15\<close>, \<open>10 ^ 4\<close> and their product
  \<open>10 ^ 19\<close> are \<open>float64\<close> values, so that the product is the same with the rounding of
  \<open>float64\<close>.
\<close>

definition exact_arith :: "64 word \<Rightarrow> rat float64_arith" where
  "exact_arith w =
     \<lparr>a_zero = 0,
      a_eq_zero = (\<lambda>x. x = 0),
      a_IsNaN = (\<lambda>x. False),
      a_Pow10 = (\<lambda>n. 10 ^ n),
      a_mul = (\<lambda>x y. x * y),
      a_div = (\<lambda>x y. x / y),
      a_trunc = (\<lambda>x. Some (if 0 \<le> x then \<lfloor>x\<rfloor> else \<lceil>x\<rceil>)),
      a_float64 = of_int,
      a_int_overflow = (\<lambda>x. w)\<rparr>"

definition assign_float64 :: "'f \<Rightarrow> 'f \<Rightarrow> 'f \<times> error option" where
  "assign_float64 v x = (v, None)"

section \<open>Parsing the query\<close>

lemma Itoa_0: "Itoa 0 = ''0''"
  by (simp add: Itoa_def formatBits.simps digit_char_def)

lemma Itoa_500: "Itoa 500 = ''500''"
  by (simp add: Itoa_def formatBits.simps digit_char_def)

lemma Atoi_0: "Atoi ''0'' = Inr 0"
  by (simp add: Atoi_def ParseInt_def ParseUint_def isDigit_def digit_val_def maxUint64_def)

lemma Atoi_500: "Atoi ''500'' = Inr 500"
  by (simp add: Atoi_def ParseInt_def ParseUint_def isDigit_def digit_val_def maxUint64_def)

lemma Atoi_minus_one: "Atoi ''-1'' = Inr (- 1)"
  by (simp add: Atoi_def ParseInt_def ParseUint_def isDigit_def digit_val_def maxUint64_def)

lemma Atoi_default_offset: "Atoi (Itoa DefaultOffset) = Inr 0"
  by (simp add: DefaultOffset_def Itoa_0 Atoi_0)

lemma Atoi_default_limit: "Atoi (Itoa DefaultLimit500) = Inr 500"
  by (simp add: DefaultLimit500_def Itoa_500 Atoi_500)

lemma Itoa_DefaultOffset: "Itoa DefaultOffset = ''0''"
  by (simp add: DefaultOffset_def Itoa_0)

lemma Itoa_DefaultLimit500: "Itoa DefaultLimit500 = ''500''"
  by (simp add: DefaultLimit500_def Itoa_500)

lemma DefaultQuery_absent: "c key = None \<Longrightarrow> DefaultQuery c key d = d"
  by (simp add: DefaultQuery_def)

lemma DefaultQuery_present: "c key = Some v \<Longrightarrow> DefaultQuery c key d = v"
  by (simp add: DefaultQuery_def)

lemma DefaultQuery_upd_same: "DefaultQuery (c(key \<mapsto> v)) key d = v"
  by (simp add: DefaultQuery_def)

lemma DefaultQuery_upd_other: "key' \<noteq> key \<Longrightarrow> DefaultQuery (c(key \<mapsto> v)) key' d = DefaultQuery c key' d"
  by (simp add: DefaultQuery_def)

lemma Atoi_100: "Atoi ''100'' = Inr 100"
  by (simp add: Atoi_def ParseInt_def ParseUint_def isDigit_def digit_val_def maxUint64_def)

lemma Atoi_pouet: "Atoi ''pouet'' = Inl (NumError ''Atoi'' ''pouet'' ErrSyntax)"
  by (simp add: Atoi_def ParseInt_def ParseUint_def isDigit_def digit_val_def maxUint64_def)

text \<open>
  Claim C3. \<open>GetFromURLQuery\<close> returns an error exactly when the \<open>offset\<close> or the \<open>limit\<close>
  parameter is present and \<open>Atoi\<close> either rejects its value or reads a negative integer. A
  value \<open>-1\<close> for either key always fails. On failure the pagination returned is the zero
  value and the error is a \<open>BadRequestValueError\<close> whose key is the offending one: \<open>offset\<close> when
  the offset is rejected, \<open>limit\<close> otherwise.
\<close>

theorem GetFromURLQuery_fails_iff:
  "((snd (GetFromURLQuery c) \<noteq> None) =
      ((\<exists>v. c ''offset'' = Some v \<and> (\<forall>n. Atoi v = Inr n \<longrightarrow> n < 0)) \<or>
       (\<exists>v. c ''limit'' = Some v \<and> (\<forall>n. Atoi v = Inr n \<longrightarrow> n < 0))))
   \<and> (c ''offset'' = Some ''-1'' \<or> c ''limit'' = Some ''-1'' \<longrightarrow> snd (GetFromURLQuery c) \<noteq> None)
   \<and> (\<forall>e. snd (GetFromURLQuery c) = Some e \<longrightarrow>
         fst (GetFromURLQuery c) = \<lparr>Pagination.Offset = 0, Pagination.Limit = 0\<rparr> \<and>
         (\<exists>cause. e = BadRequestValueError
             (if (\<exists>v. c ''offset'' = Some v \<and> (\<forall>n. Atoi v = Inr n \<longrightarrow> n < 0)) then ''offset'' else ''limit'')
             None cause))"
  by (auto simp: GetFromURLQuery_def DefaultQuery_def Atoi_default_offset Atoi_default_limit Atoi_minus_one
      zero_Pagination_def split: option.splits sum.splits if_splits)

theorem GetFromURLQuery_fails_iff_witness:
  "snd (GetFromURLQuery [''offset'' \<mapsto> ''-1'']) \<noteq> None
   \<and> fst (GetFromURLQuery [''offset'' \<mapsto> ''-1'']) = \<lparr>Pagination.Offset = 0, Pagination.Limit = 0\<rparr>
   \<and> (\<exists>cause. snd (GetFromURLQuery [''offset'' \<mapsto> ''-1'']) = Some (BadRequestValueError ''offset'' None cause))
   \<and> (\<exists>cause. snd (GetFromURLQuery [''offset'' \<mapsto> ''100'', ''limit'' \<mapsto> ''pouet'']) = Some (BadRequestValueError ''limit'' None cause))
   \<and> snd (GetFromURLQuery [''offset'' \<mapsto> ''0'', ''limit'' \<mapsto> ''100'']) = None"
proof -
  let ?c1 = "[''offset'' \<mapsto> ''-1'']"
  let ?c2 = "[''offset'' \<mapsto> ''100'', ''limit'' \<mapsto> ''pouet'']"
  let ?c3 = "[''offset'' \<mapsto> ''0'', ''limit'' \<mapsto> ''100'']"
  have f1: "snd (GetFromURLQuery ?c1) \<noteq> None"
    using GetFromURLQuery_fails_iff [of ?c1, THEN conjunct2, THEN conjunct1] by simp
  then obtain e1 where e1: "snd (GetFromURLQuery ?c1) = Some e1" by blast
  have s1: "fst (GetFromURLQuery ?c1) = \<lparr>Pagination.Offset = 0, Pagination.Limit = 0\<rparr>
      \<and> (\<exists>cause. e1 = BadRequestValueError ''offset'' None cause)"
    using GetFromURLQuery_fails_iff [of ?c1, THEN conjunct2, THEN conjunct2, rule_format, OF e1]
    by (simp add: Atoi_minus_one)
  have f2: "snd (GetFromURLQuery ?c2) \<noteq> None"
    using GetFromURLQuery_fails_iff [of ?c2, THEN conjunct1] by (simp add: Atoi_pouet)
  then obtain e2 where e2: "snd (GetFromURLQuery ?c2) = Some e2" by blast
  have s2: "\<exists>cause. e2 = BadRequestValueError ''limit'' None cause"
    using GetFromURLQuery_fails_iff [of ?c2, THEN conjunct2, THEN conjunct2, rule_format, OF e2]
    by (simp add: Atoi_100)
  have f3: "snd (GetFromURLQuery ?c3) = None"
    using GetFromURLQuery_fails_iff [of ?c3, THEN conjunct1] by (simp add: Atoi_0 Atoi_100)
  show ?thesis using f1 e1 s1 e2 s2 f3 by simp
qed

lemma Atoi_7: "Atoi ''7'' = Inr 7"
  by (simp add: Atoi_def ParseInt_def ParseUint_def isDigit_def digit_val_def maxUint64_def)

lemma GetFromURLQuery_limit_7:
  "GetFromURLQuery [''limit'' \<mapsto> ''7''] = (\<lparr>Pagination.Offset = 0, Pagination.Limit = 7\<rparr>, None)"
  by (simp add: GetFromURLQuery_def DefaultQuery_def Itoa_DefaultOffset Atoi_0 Atoi_7)

lemma GetFromURLQuery_offset_7:
  "GetFromURLQuery [''offset'' \<mapsto> ''7''] = (\<lparr>Pagination.Offset = 7, Pagination.Limit = 500\<rparr>, None)"
  by (simp add: GetFromURLQuery_def DefaultQuery_def Itoa_DefaultLimit500 Atoi_500 Atoi_7)

text \<open>
  Claim C7. An absent \<open>offset\<close> is read as 0 and an absent \<open>limit\<close> as 500. The result is the
  one of the same request with \<open>offset=0\<close>, respectively \<open>limit=500\<close>, written out; whenever
  the call succeeds, \<open>Offset\<close> is 0 if \<open>offset\<close> is absent and \<open>Limit\<close> is 500 if \<open>limit\<close> is
  absent. With both absent the call succeeds with \<open>Pagination{Offset: 0, Limit: 500}\<close>, the
  value of \<open>Default()\<close>.
\<close>

theorem GetFromURLQuery_defaults:
  "(c ''offset'' = None \<longrightarrow> GetFromURLQuery c = GetFromURLQuery (c(''offset'' \<mapsto> ''0'')))
   \<and> (c ''limit'' = None \<longrightarrow> GetFromURLQuery c = GetFromURLQuery (c(''limit'' \<mapsto> ''500'')))
   \<and> (c ''offset'' = None \<and> c ''limit'' = None \<longrightarrow>
        GetFromURLQuery c = (\<lparr>Pagination.Offset = 0, Pagination.Limit = 500\<rparr>, None)
        \<and> fst (GetFromURLQuery c) = Default)
   \<and> (c ''offset'' = None \<and> snd (GetFromURLQuery c) = None \<longrightarrow>
        Pagination.Offset (fst (GetFromURLQuery c)) = 0)
   \<and> (c ''limit'' = None \<and> snd (GetFromURLQuery c) = None \<longrightarrow>
        Pagination.Limit (fst (GetFromURLQuery c)) = 500)"
proof (intro conjI impI)
  assume "c ''offset'' = None"
  then show "GetFromURLQuery c = GetFromURLQuery (c(''offset'' \<mapsto> ''0''))"
    by (simp add: GetFromURLQuery_def DefaultQuery_absent DefaultQuery_upd_same DefaultQuery_upd_other
        Itoa_DefaultOffset Atoi_0 split: sum.splits)
next
  assume "c ''limit'' = None"
  then show "GetFromURLQuery c = GetFromURLQuery (c(''limit'' \<mapsto> ''500''))"
    by (simp add: GetFromURLQuery_def DefaultQuery_absent DefaultQuery_upd_same DefaultQuery_upd_other
        Itoa_DefaultLimit500 Atoi_500 split: sum.splits)
next
  assume a: "c ''offset'' = None \<and> c ''limit'' = None"
  then show r: "GetFromURLQuery c = (\<lparr>Pagination.Offset = 0, Pagination.Limit = 500\<rparr>, None)"
    by (simp add: GetFromURLQuery_def DefaultQuery_absent Itoa_DefaultOffset Itoa_DefaultLimit500
        Atoi_0 Atoi_500)
  show "fst (GetFromURLQuery c) = Default"
    by (simp add: r Default_def DefaultLimit500_def)
next
  assume "c ''offset'' = None \<and> snd (GetFromURLQuery c) = None"
  then show "Pagination.Offset (fst (GetFromURLQuery c)) = 0"
    by (auto simp: GetFromURLQuery_def DefaultQuery_absent Itoa_DefaultOffset Atoi_0
        split: sum.splits if_splits)
next
  assume "c ''limit'' = None \<and> snd (GetFromURLQuery c) = None"
  then show "Pagination.Limit (fst (GetFromURLQuery c)) = 500"
    by (auto simp: GetFromURLQuery_def DefaultQuery_absent Itoa_DefaultLimit500 Atoi_500
        split: sum.splits if_splits)
qed

theorem GetFromURLQuery_defaults_witness:
  "GetFromURLQuery Map.empty = (\<lparr>Pagination.Offset = 0, Pagination.Limit = 500\<rparr>, None)
   \<and> fst (GetFromURLQuery Map.empty) = Default
   \<and> GetFromURLQuery [''limit'' \<mapsto> ''7''] = GetFromURLQuery [''limit'' \<mapsto> ''7'', ''offset'' \<mapsto> ''0'']
   \<and> GetFromURLQuery [''offset'' \<mapsto> ''7''] = GetFromURLQuery [''offset'' \<mapsto> ''7'', ''limit'' \<mapsto> ''500'']
   \<and> snd (GetFromURLQuery [''limit'' \<mapsto> ''7'']) = None
   \<and> Pagination.Offset (fst (GetFromURLQuery [''limit'' \<mapsto> ''7''])) = 0
   \<and> snd (GetFromURLQuery [''offset'' \<mapsto> ''7'']) = None
   \<and> Pagination.Limit (fst (GetFromURLQuery [''offset'' \<mapsto> ''7''])) = 500"
proof -
  have a: "GetFromURLQuery Map.empty = (\<lparr>Pagination.Offset = 0, Pagination.Limit = 500\<rparr>, None)
      \<and> fst (GetFromURLQuery Map.empty) = Default"
    by (rule GetFromURLQuery_defaults [of Map.empty, THEN conjunct2, THEN conjunct2, THEN conjunct1, THEN mp]) simp
  have b: "GetFromURLQuery [''limit'' \<mapsto> ''7''] = GetFromURLQuery [''limit'' \<mapsto> ''7'', ''offset'' \<mapsto> ''0'']"
    by (rule GetFromURLQuery_defaults [of "[''limit'' \<mapsto> ''7'']", THEN conjunct1, THEN mp]) simp
  have c: "GetFromURLQuery [''offset'' \<mapsto> ''7''] = GetFromURLQuery [''offset'' \<mapsto> ''7'', ''limit'' \<mapsto> ''500'']"
    by (rule GetFromURLQuery_defaults [of "[''offset'' \<mapsto> ''7'']", THEN conjunct2, THEN conjunct1, THEN mp]) simp
  have s1: "snd (GetFromURLQuery [''limit'' \<mapsto> ''7'']) = None"
    by (simp add: GetFromURLQuery_limit_7)
  have s2: "snd (GetFromURLQuery [''offset'' \<mapsto> ''7'']) = None"
    by (simp add: GetFromURLQuery_offset_7)
  have d: "Pagination.Offset (fst (GetFromURLQuery [''limit'' \<mapsto> ''7''])) = 0"
    by (rule GetFromURLQuery_defaults [of "[''limit'' \<mapsto> ''7'']", THEN conjunct2, THEN conjunct2,
        THEN conjunct2, THEN conjunct1, THEN mp]) (simp add: s1)
  have e: "Pagination.Limit (fst (GetFromURLQuery [''offset'' \<mapsto> ''7''])) = 500"
    by (rule GetFromURLQuery_defaults [of "[''offset'' \<mapsto> ''7'']", THEN conjunct2, THEN conjunct2,
        THEN conjunct2, THEN conjunct2, THEN mp]) (simp add: s2)
  show ?thesis using a b c s1 s2 d e by blast
qed

section \<open>Conversion of NullInt to 32 bits\<close>

lemma sint_ucast_64_32: "sint (ucast (x :: 64 word) :: 32 word) = (sint x + 2 ^ 31) mod 2 ^ 32 - 2 ^ 31"
proof -
  have "sint (ucast x :: 32 word) = signed_take_bit 31 (uint x)"
    by (simp add: signed_ucast_eq)
  also have "\<dots> = signed_take_bit 31 (sint x)"
    by (simp add: signed_take_bit_eq_iff_take_bit_eq sint_uint take_bit_signed_take_bit)
  also have "\<dots> = (sint x + 2 ^ 31) mod 2 ^ 32 - 2 ^ 31"
    by (simp add: signed_take_bit_eq_take_bit_shift take_bit_eq_mod)
  finally show ?thesis .
qed

text \<open>
  Claim C10. \<open>MapToInt32\<close> returns an error for every valid value above the largest 32-bit
  signed integer. For a valid value below the smallest one it returns no error and a pointer
  to the value reduced modulo \<open>2^32\<close> into the 32-bit range, which differs from the value
  stored. For an invalid wrapper it returns nil and no error.
\<close>

theorem NullInt_MapToInt32_range:
  "(NullInt64.Valid ni \<and> sint (Int64 ni) > 2 ^ 31 - 1 \<longrightarrow>
      (\<exists>e. NullInt_MapToInt32 ni = (None, Some e)))
   \<and> (NullInt64.Valid ni \<and> sint (Int64 ni) < - (2 ^ 31) \<longrightarrow>
      (\<exists>v. NullInt_MapToInt32 ni = (Some v, None) \<and>
           sint v = (sint (Int64 ni) + 2 ^ 31) mod 2 ^ 32 - 2 ^ 31 \<and> sint v \<noteq> sint (Int64 ni)))
   \<and> (\<not> NullInt64.Valid ni \<longrightarrow> NullInt_MapToInt32 ni = (None, None))"
proof (intro conjI impI)
  assume "NullInt64.Valid ni \<and> sint (Int64 ni) > 2 ^ 31 - 1"
  then show "\<exists>e. NullInt_MapToInt32 ni = (None, Some e)"
    by (simp add: NullInt_MapToInt32_def MaxInt32_def)
next
  assume a: "NullInt64.Valid ni \<and> sint (Int64 ni) < - (2 ^ 31)"
  then have r: "NullInt_MapToInt32 ni = (Some (ucast (Int64 ni)), None)"
    by (simp add: NullInt_MapToInt32_def MaxInt32_def)
  have lo: "- (2 ^ 31) \<le> sint (ucast (Int64 ni) :: 32 word)"
    using sint_ge [of "ucast (Int64 ni) :: 32 word"] by simp
  with a have ne: "sint (ucast (Int64 ni) :: 32 word) \<noteq> sint (Int64 ni)"
    by linarith
  show "\<exists>v. NullInt_MapToInt32 ni = (Some v, None) \<and>
           sint v = (sint (Int64 ni) + 2 ^ 31) mod 2 ^ 32 - 2 ^ 31 \<and> sint v \<noteq> sint (Int64 ni)"
    using r ne sint_ucast_64_32 [of "Int64 ni"] by simp
next
  assume "\<not> NullInt64.Valid ni"
  then show "NullInt_MapToInt32 ni = (None, None)"
    by (simp add: NullInt_MapToInt32_def)
qed

theorem NullInt_MapToInt32_range_witness:
  "(\<exists>e. NullInt_MapToInt32 \<lparr>Int64 = 2147483648, Valid = True\<rparr> = (None, Some e))
   \<and> (\<exists>v. NullInt_MapToInt32 \<lparr>Int64 = - 2147483649, Valid = True\<rparr> = (Some v, None) \<and> sint v = 2147483647)
   \<and> NullInt_MapToInt32 \<lparr>Int64 = 7, Valid = False\<rparr> = (None, None)"
  using NullInt_MapToInt32_range [of "\<lparr>Int64 = 2147483648, Valid = True\<rparr>"]
    NullInt_MapToInt32_range [of "\<lparr>Int64 = - 2147483649, Valid = True\<rparr>"]
    NullInt_MapToInt32_range [of "\<lparr>Int64 = 7, Valid = False\<rparr>"]
  by auto

section \<open>Properties of the JSON encoding\<close>

text \<open>
  The decimal form of a 64-bit integer is read back by \<open>ParseInt\<close>, so that an \<open>int64\<close>
  survives \<open>json.Marshal\<close> and \<open>json.Unmarshal\<close>. A string of printable ASCII characters
  other than the double quote, the backslash, the ampersand and the angle brackets is encoded
  between two double quotes as it is, and decoded back.
\<close>

lemma digit_char_props:
  assumes "d < 10"
  shows "isDigit (digit_char d)" and "digit_val (digit_char d) = d"
    and "\<not> isSpace (digit_char d)" and "digit_char d \<noteq> CHR ''-''" and "digit_char d \<noteq> CHR ''+''"
    and "digit_char d \<noteq> CHR ''n''" and "(digit_char d = CHR ''0'') = (d = 0)"
proof -
  from assms have "d \<in> {0, 1, 2, 3, 4, 5, 6, 7, 8, 9}" by auto
  then have "isDigit (digit_char d) \<and> digit_val (digit_char d) = d \<and> \<not> isSpace (digit_char d)
      \<and> digit_char d \<noteq> CHR ''-'' \<and> digit_char d \<noteq> CHR ''+'' \<and> digit_char d \<noteq> CHR ''n''
      \<and> ((digit_char d = CHR ''0'') = (d = 0))"
    by (elim insertE emptyE) (simp_all add: digit_char_def isDigit_def digit_val_def isSpace_def byte_def)
  then show "isDigit (digit_char d)" and "digit_val (digit_char d) = d"
    and "\<not> isSpace (digit_char d)" and "digit_char d \<noteq> CHR ''-''" and "digit_char d \<noteq> CHR ''+''"
    and "digit_char d \<noteq> CHR ''n''" and "(digit_char d = CHR ''0'') = (d = 0)"
    by simp_all
qed

lemma formatBits_not_Nil: "formatBits n \<noteq> []"
  by (subst formatBits.simps) simp

lemma formatBits_digits: "list_all isDigit (formatBits n)"
proof (induction n rule: formatBits.induct)
  case (1 n)
  show ?case
  proof (cases "n < 10")
    case True
    then show ?thesis by (subst formatBits.simps) (simp add: digit_char_props)
  next
    case False
    with 1 show ?thesis by (subst formatBits.simps) (simp add: digit_char_props)
  qed
qed

lemma formatBits_0: "formatBits 0 = ''0''"
  by (subst formatBits.simps) (simp add: digit_char_def)

lemma formatBits_hd:
  "0 < n \<Longrightarrow> \<exists>d. 0 < d \<and> d < 10 \<and> hd (formatBits n) = digit_char d"
proof (induction n rule: formatBits.induct)
  case (1 n)
  show ?case
  proof (cases "n < 10")
    case True
    have "hd (formatBits n) = digit_char n"
      using True by (subst formatBits.simps) simp
    with True "1.prems" show ?thesis by blast
  next
    case False
    then have pos: "0 < n div 10" by simp
    have "hd (formatBits n) = hd (formatBits (n div 10))"
      using False formatBits_not_Nil [of "n div 10"]
      by (subst formatBits.simps) simp
    with "1.IH" [OF False pos] show ?thesis by simp
  qed
qed

lemma formatBits_hd_digit: "\<exists>d < 10. hd (formatBits n) = digit_char d"
proof (cases "n = 0")
  case True
  have "hd (formatBits 0) = digit_char 0" by (simp add: formatBits_0 digit_char_def)
  with True show ?thesis by (intro exI [of _ 0]) simp
next
  case False
  with formatBits_hd [of n] show ?thesis by auto
qed

lemma formatBits_last: "\<exists>d < 10. last (formatBits n) = digit_char d"
proof (cases "n < 10")
  case True
  then have "last (formatBits n) = digit_char n" by (subst formatBits.simps) simp
  with True show ?thesis by auto
next
  case False
  then have "last (formatBits n) = digit_char (n mod 10)" by (subst formatBits.simps) simp
  moreover have "n mod 10 < 10" by simp
  ultimately show ?thesis by blast
qed

lemma json_digits_formatBits: "json_digits (formatBits n)"
proof (cases "n = 0")
  case True
  then show ?thesis by (simp add: json_digits_def formatBits_0 isDigit_def)
next
  case False
  then obtain d where d: "0 < d" "d < 10" "hd (formatBits n) = digit_char d"
    using formatBits_hd [of n] by auto
  then have "hd (formatBits n) \<noteq> CHR ''0''" by (simp add: digit_char_props)
  then show ?thesis by (simp add: json_digits_def formatBits_not_Nil formatBits_digits)
qed

lemma ParseUint_loop_snoc:
  "ParseUint_loop acc (xs @ [c]) =
     (case ParseUint_loop acc xs of
        Inl e \<Rightarrow> Inl e
      | Inr m \<Rightarrow> if \<not> isDigit c then Inl ErrSyntax
                 else if m * 10 + digit_val c > maxUint64 then Inl ErrRange
                 else Inr (m * 10 + digit_val c))"
  by (induction xs arbitrary: acc) simp_all

lemma ParseUint_loop_formatBits:
  "n \<le> maxUint64 \<Longrightarrow> ParseUint_loop 0 (formatBits n) = Inr n"
proof (induction n rule: formatBits.induct)
  case (1 n)
  show ?case
  proof (cases "n < 10")
    case True
    with "1.prems" show ?thesis
      by (subst formatBits.simps) (simp add: digit_char_props)
  next
    case False
    have le: "n div 10 \<le> maxUint64" using "1.prems" by simp
    have m: "n mod 10 < 10" by simp
    have "ParseUint_loop 0 (formatBits (n div 10) @ [digit_char (n mod 10)]) = Inr n"
      using "1.IH" [OF False le] "1.prems" m
      by (simp add: ParseUint_loop_snoc digit_char_props)
    with False show ?thesis by (subst formatBits.simps) simp
  qed
qed

lemma ParseInt_Itoa:
  assumes "- (2 ^ 63) \<le> i" and "i < 2 ^ 63"
  shows "ParseInt (Itoa i) = Inr i"
proof (cases "i < 0")
  case True
  let ?m = "nat (- i)"
  have m: "?m \<le> 2 ^ 63" using assms True by (simp add: nat_le_iff)
  then have "?m \<le> maxUint64" by (simp add: maxUint64_def)
  then have "ParseUint (formatBits ?m) = Inr ?m"
    by (simp add: ParseUint_def formatBits_not_Nil ParseUint_loop_formatBits)
  with True m show ?thesis by (simp add: ParseInt_def Itoa_def)
next
  case False
  let ?n = "nat i"
  have n: "?n < 2 ^ 63" using assms False by (simp add: nat_less_iff)
  then have "?n \<le> maxUint64" by (simp add: maxUint64_def)
  then have pu: "ParseUint (formatBits ?n) = Inr ?n"
    by (simp add: ParseUint_def formatBits_not_Nil ParseUint_loop_formatBits)
  obtain c cs where cs: "formatBits ?n = c # cs"
    using formatBits_not_Nil [of ?n] by (cases "formatBits ?n") auto
  obtain d where d: "d < 10" "hd (formatBits ?n) = digit_char d"
    using formatBits_hd_digit [of ?n] by auto
  with cs have c: "c \<noteq> CHR ''-''" "c \<noteq> CHR ''+''" by (simp_all add: digit_char_props)
  show ?thesis using False n pu cs c by (simp add: ParseInt_def Itoa_def)
qed

lemma Atoi_Itoa: "- (2 ^ 63) \<le> i \<Longrightarrow> i < 2 ^ 63 \<Longrightarrow> Atoi (Itoa i) = Inr i"
  by (simp add: Atoi_def ParseInt_Itoa)

lemma trimSpace_id:
  assumes "s \<noteq> []" and "\<not> isSpace (hd s)" and "\<not> isSpace (last s)"
  shows "trimSpace s = s"
proof -
  from assms have a: "dropWhile isSpace s = s" by (cases s) simp_all
  from assms have "rev s \<noteq> []" "\<not> isSpace (hd (rev s))" by (simp_all add: hd_rev)
  then have "dropWhile isSpace (rev s) = rev s" by (cases "rev s") simp_all
  with a show ?thesis by (simp add: trimSpace_def)
qed

lemma Itoa_shape:
  "Itoa i \<noteq> [] \<and> \<not> isSpace (hd (Itoa i)) \<and> \<not> isSpace (last (Itoa i)) \<and> hd (Itoa i) \<noteq> CHR ''n''"
proof -
  let ?n = "nat (if i < 0 then - i else i)"
  obtain d where d: "d < 10" "hd (formatBits ?n) = digit_char d"
    using formatBits_hd_digit [of ?n] by auto
  obtain e where e: "e < 10" "last (formatBits ?n) = digit_char e"
    using formatBits_last [of ?n] by auto
  have ne: "formatBits ?n \<noteq> []" by (rule formatBits_not_Nil)
  have minus: "\<not> isSpace CHR ''-''" by (simp add: isSpace_def byte_def)
  have hd_ok: "\<not> isSpace (hd (formatBits ?n))" "hd (formatBits ?n) \<noteq> CHR ''n''"
    using d by (simp_all add: digit_char_props)
  have last_ok: "\<not> isSpace (last (formatBits ?n))"
    using e by (simp add: digit_char_props)
  show ?thesis
  proof (cases "i < 0")
    case True
    with ne last_ok minus show ?thesis by (simp add: Itoa_def)
  next
    case False
    with ne hd_ok last_ok show ?thesis by (simp add: Itoa_def)
  qed
qed

lemma trimSpace_Itoa: "trimSpace (Itoa i) = Itoa i"
  using Itoa_shape [of i] by (simp add: trimSpace_id)

lemma Itoa_not_null: "Itoa i \<noteq> ''null''"
  using Itoa_shape [of i] by (cases "Itoa i") auto

lemma json_integer_Itoa: "json_integer (Itoa i)"
proof (cases "i < 0")
  case True
  then show ?thesis by (simp add: json_integer_def Itoa_def json_digits_formatBits)
next
  case False
  obtain c cs where cs: "formatBits (nat i) = c # cs"
    using formatBits_not_Nil [of "nat i"] by (cases "formatBits (nat i)") auto
  obtain d where d: "d < 10" "hd (formatBits (nat i)) = digit_char d"
    using formatBits_hd_digit [of "nat i"] by auto
  with cs have "c \<noteq> CHR ''-''" by (simp add: digit_char_props)
  with False cs json_digits_formatBits [of "nat i"] show ?thesis
    by (simp add: json_integer_def Itoa_def)
qed

lemma json_Unmarshal_int64_ptr_Marshal:
  "json_Unmarshal_int64_ptr (fst (json_Marshal_int64 w)) = Inr (Some w)"
proof -
  have lo: "- (2 ^ 63) \<le> sint w" using sint_ge [of w] by simp
  have hi: "sint w < 2 ^ 63" using sint_lt [of w] by simp
  show ?thesis
    by (simp add: json_Unmarshal_int64_ptr_def json_Marshal_int64_def trimSpace_Itoa Itoa_not_null
        json_integer_Itoa ParseInt_Itoa [OF lo hi])
qed

lemma json_Marshal_string_empty: "json_Marshal_string [] = (quoted [], None)"
  by (simp add: json_Marshal_string_def quoted_def)

lemma json_Marshal_string_quoted: "\<exists>s'. json_Marshal_string s = (quoted s', None)"
  by (simp add: json_Marshal_string_def quoted_def)

lemma quoted_not_null: "quoted s \<noteq> ''null''"
  by (simp add: quoted_def)

lemma quoted_not_empty: "quoted s \<noteq> []"
  by (simp add: quoted_def)

lemma trimSpace_quoted: "trimSpace (quoted s) = quoted s"
  by (rule trimSpace_id) (simp_all add: quoted_def isSpace_def byte_def)

lemma appendString_safe: "list_all htmlSafe s \<Longrightarrow> appendString s = s"
  by (induction s) (simp_all add: htmlSafe_def escape_ascii_def)

lemma unquote_safe: "list_all htmlSafe s \<Longrightarrow> unquote (s @ [CHR 0x22]) = Some s"
proof (induction s)
  case Nil
  show ?case by (simp add: byte_def)
next
  case (Cons c s)
  then show ?case by (simp add: htmlSafe_def)
qed

lemma json_string_roundtrip_safe:
  "list_all htmlSafe s \<Longrightarrow> json_Unmarshal_string (fst (json_Marshal_string s)) x = (s, None)"
proof -
  assume safe: "list_all htmlSafe s"
  have m: "fst (json_Marshal_string s) = quoted s"
    by (simp add: json_Marshal_string_def appendString_safe [OF safe] quoted_def)
  have "json_Unmarshal_string (quoted s) x = (s, None)"
    using unquote_safe [OF safe]
    by (simp add: json_Unmarshal_string_def trimSpace_quoted quoted_not_null)
       (simp add: quoted_def byte_def)
  with m show ?thesis by simp
qed


lemma json_Unmarshal_bool_Marshal:
  "json_Unmarshal_bool (fst (json_Marshal_bool v)) x = (v, None)"
  by (simp add: json_Unmarshal_bool_def json_Marshal_bool_def trimSpace_def isSpace_def byte_def)

lemma json_Marshal_bool_not_null: "fst (json_Marshal_bool v) \<noteq> ''null''"
  by (simp add: json_Marshal_bool_def)

lemma json_Unmarshal_float64_null: "json_Unmarshal_float64 L ''null'' x = (x, None)"
  by (simp add: json_Unmarshal_float64_def trimSpace_def isSpace_def byte_def)

lemma json_Unmarshal_int64_ptr_null: "json_Unmarshal_int64_ptr ''null'' = Inr None"
  by (simp add: json_Unmarshal_int64_ptr_def trimSpace_def isSpace_def byte_def)

lemma json_Unmarshal_float64_ptr_null: "json_Unmarshal_float64_ptr L ''null'' = Inr None"
  by (simp add: json_Unmarshal_float64_ptr_def trimSpace_def isSpace_def byte_def)

lemma json_Marshal_string_my_label:
  "json_Marshal_string ''my label'' = (quoted ''my label'', None)"
  by (simp add: json_Marshal_string_def escape_ascii_def htmlSafe_def byte_def quoted_def)

lemma json_Unmarshal_string_my_label:
  "json_Unmarshal_string (quoted ''my label'') x = (''my label'', None)"
  by (simp add: json_Unmarshal_string_def trimSpace_def isSpace_def byte_def quoted_def)

lemma json_Marshal_string_my_second_label:
  "json_Marshal_string ''my second label'' = (quoted ''my second label'', None)"
  by (simp add: json_Marshal_string_def escape_ascii_def htmlSafe_def byte_def quoted_def)

lemma json_Unmarshal_string_my_second_label:
  "json_Unmarshal_string (quoted ''my second label'') x = (''my second label'', None)"
  by (simp add: json_Unmarshal_string_def trimSpace_def isSpace_def byte_def quoted_def)

lemma fst_json_Marshal_string_props:
  "fst (json_Marshal_string s) \<noteq> ''null'' \<and> fst (json_Marshal_string s) \<noteq> []"
  by (simp add: json_Marshal_string_def)

lemma Itoa_12: "Itoa 12 = ''12''"
  by (simp add: Itoa_def formatBits.simps digit_char_def)

lemma whole_numbers_simps:
  "f_zero whole_numbers = 0" "f_is_zero whole_numbers x = (x = 0)"
  "f_to_int64 whole_numbers x = word_of_int x" "f_format whole_numbers x = (Itoa x, None)"
  "f_parse whole_numbers t =
     (if json_integer t then (case ParseInt t of Inl e \<Rightarrow> None | Inr n \<Rightarrow> Some n) else None)"
  by (simp_all add: whole_numbers_def)

lemma json_integer_12: "json_integer ''12''"
  by (simp add: json_integer_def json_digits_def isDigit_def)

lemma ParseInt_12: "ParseInt ''12'' = Inr 12"
  by (simp add: ParseInt_def ParseUint_def isDigit_def digit_val_def maxUint64_def)

lemma whole_numbers_12:
  "f_parse whole_numbers ''12'' = Some 12" "f_format whole_numbers 12 = (''12'', None)"
  "f_to_int64 whole_numbers 12 = 12" "\<not> f_is_zero whole_numbers 12" "f_is_zero whole_numbers 0"
  by (simp_all add: whole_numbers_simps Itoa_12 json_integer_12 ParseInt_12)

lemma trimSpace_12: "trimSpace ''12'' = ''12''"
  by (simp add: trimSpace_def isSpace_def byte_def)

lemma my_label_roundtrip:
  "json_Unmarshal_string (fst (json_Marshal_string ''my label'')) x = (''my label'', None)"
  by (rule json_string_roundtrip_safe) (simp add: htmlSafe_def byte_def)

lemma Parse_Format_2020:
  "Parse_2020 (quoted ''2006-01-02'') (fst (json_Marshal_string (Format_2020 midnight_2020 ''2006-01-02''))) =
     (midnight_2020, None)"
proof -
  have "list_all htmlSafe ''2020-01-01''" by (simp add: htmlSafe_def byte_def)
  then have "appendString ''2020-01-01'' = ''2020-01-01''"
    by (rule appendString_safe)
  then have "fst (json_Marshal_string ''2020-01-01'') = quoted ''2020-01-01''"
    by (simp only: json_Marshal_string_def quoted_def fst_conv)
  then show ?thesis by (simp add: Format_2020_def Parse_2020_def)
qed

section \<open>Building and decoding a Pageable\<close>

text \<open>
  Claim C4. When the payload of a \<open>Pageable\<close> is not a slice of untyped elements,
  \<open>PageableToSlice\<close> fails: it returns the cast error and an empty, non-nil collection.
\<close>

theorem PageableToSlice_not_slice:
  "(\<forall>xs. Data pageable \<noteq> AnySlice TInterface xs) \<Longrightarrow>
   PageableToSlice T zero marshal unmarshal pageable =
     (Slice [], Some (Errorf ''unable to cast data field of pageable to a slice of interface''))"
  by (auto simp: PageableToSlice_def split: any.splits gotype.splits)

theorem PageableToSlice_not_slice_witness:
  "PageableToSlice (TNamed ''string'') [] json_Marshal_string json_Unmarshal_string
     \<lparr>Pageable.Limit = 0, Pageable.Offset = 0, Total = 0, Data = AnyValue (TNamed ''string'') ''my label''\<rparr> =
   (Slice [], Some (Errorf ''unable to cast data field of pageable to a slice of interface''))"
  by (rule PageableToSlice_not_slice) simp

lemma PageableToSlice_loop_roundtrip:
  "\<forall>v \<in> set vs. \<exists>b. marshal v = (b, None) \<and> unmarshal b zero = (v, None) \<Longrightarrow>
   PageableToSlice_loop T zero marshal unmarshal acc vs =
     ((if vs = [] then acc else Slice (elems acc @ vs)), None)"
proof (induction vs arbitrary: acc)
  case Nil
  then show ?case by simp
next
  case (Cons v vs)
  then obtain b where b: "marshal v = (b, None)" "unmarshal b zero = (v, None)" by auto
  from Cons have IH: "PageableToSlice_loop T zero marshal unmarshal (append_slice acc v) vs =
     ((if vs = [] then append_slice acc v else Slice (elems (append_slice acc v) @ vs)), None)"
    by simp
  show ?case using b IH by simp
qed

text \<open>
  Claim C1 states that decoding what \<open>BuildPageable\<close> built gives the original slice back.
  It fails for a slice of strings: \<open>BuildPageable[string]\<close> stores a \<open>[]string\<close> in \<open>Data\<close>, and
  the type assertion of \<open>PageableToSlice[string]\<close> to \<open>[]interface{}\<close> rejects it, although the
  label itself survives the JSON encoding and decoding.
\<close>

theorem PageableToSlice_BuildPageable_counterexample:
  "PageableToSlice (TNamed ''string'') [] json_Marshal_string json_Unmarshal_string
     (BuildPageable (TNamed ''string'') Default 1 (Slice [''my label''])) =
   (Slice [], Some (Errorf ''unable to cast data field of pageable to a slice of interface''))
   \<and> json_Unmarshal_string (fst (json_Marshal_string ''my label'')) [] = (''my label'', None)"
  by (simp add: PageableToSlice_def BuildPageable_def json_Marshal_string_my_label json_Unmarshal_string_my_label)

text \<open>
  Claim C1, amended. For every pagination and total count: a slice of untyped elements
  (\<open>[]interface{}\<close>), each of which \<open>json.Marshal\<close> encodes and \<open>json.Unmarshal\<close> decodes back to
  itself, is returned with the same elements by \<open>PageableToSlice\<close> at the element type
  \<open>interface{}\<close> on the envelope that \<open>BuildPageable\<close> built from it. On the envelope built from
  a slice of any other element type \<open>T\<close>, \<open>PageableToSlice[T]\<close> fails with the cast error and an
  empty collection.
\<close>

theorem PageableToSlice_BuildPageable:
  "(T \<noteq> TInterface \<longrightarrow>
      PageableToSlice T zero marshal unmarshal (BuildPageable T page totalRows data) =
        (Slice [], Some (Errorf ''unable to cast data field of pageable to a slice of interface'')))
   \<and> ((\<forall>v \<in> set (elems data). \<exists>b. marshal v = (b, None) \<and> unmarshal b zero = (v, None)) \<longrightarrow>
        (\<exists>res. PageableToSlice TInterface zero marshal unmarshal
                  (BuildPageable TInterface page totalRows data) = (res, None)
               \<and> elems res = elems data))"
proof (intro conjI impI)
  assume "T \<noteq> TInterface"
  then show "PageableToSlice T zero marshal unmarshal (BuildPageable T page totalRows data) =
        (Slice [], Some (Errorf ''unable to cast data field of pageable to a slice of interface''))"
    by (cases T) (simp_all add: PageableToSlice_def BuildPageable_def)
next
  assume rt: "\<forall>v \<in> set (elems data). \<exists>b. marshal v = (b, None) \<and> unmarshal b zero = (v, None)"
  have "PageableToSlice TInterface zero marshal unmarshal (BuildPageable TInterface page totalRows data) =
          PageableToSlice_loop TInterface zero marshal unmarshal NilSlice (elems data)"
    by (simp add: PageableToSlice_def BuildPageable_def)
  also have "\<dots> = ((if elems data = [] then NilSlice else Slice (elems NilSlice @ elems data)), None)"
    using rt by (rule PageableToSlice_loop_roundtrip [where marshal = marshal and unmarshal = unmarshal and zero = zero])
  finally show "\<exists>res. PageableToSlice TInterface zero marshal unmarshal
                  (BuildPageable TInterface page totalRows data) = (res, None)
               \<and> elems res = elems data"
    by simp
qed

theorem PageableToSlice_BuildPageable_witness:
  "PageableToSlice (TNamed ''string'') [] json_Marshal_string json_Unmarshal_string
       (BuildPageable (TNamed ''string'') Default 2 (Slice [''my label'', ''my second label''])) =
     (Slice [], Some (Errorf ''unable to cast data field of pageable to a slice of interface''))
   \<and> (\<exists>res. PageableToSlice TInterface [] json_Marshal_string json_Unmarshal_string
               (BuildPageable TInterface Default 2 (Slice [''my label'', ''my second label''])) = (res, None)
            \<and> elems res = [''my label'', ''my second label''])"
proof -
  let ?data = "Slice [''my label'', ''my second label'']"
  have a: "PageableToSlice (TNamed ''string'') [] json_Marshal_string json_Unmarshal_string
       (BuildPageable (TNamed ''string'') Default 2 ?data) =
     (Slice [], Some (Errorf ''unable to cast data field of pageable to a slice of interface''))"
    by (rule PageableToSlice_BuildPageable [THEN conjunct1, THEN mp]) simp
  have b: "\<exists>res. PageableToSlice TInterface [] json_Marshal_string json_Unmarshal_string
               (BuildPageable TInterface Default 2 ?data) = (res, None)
            \<and> elems res = elems ?data"
    by (rule PageableToSlice_BuildPageable [THEN conjunct2, THEN mp])
       (simp add: json_Marshal_string_my_label json_Unmarshal_string_my_label
         json_Marshal_string_my_second_label json_Unmarshal_string_my_second_label)
  show ?thesis using a b by simp
qed

section \<open>Encoding the nullable wrappers\<close>

text \<open>
  Claim C5 states that every wrapper whose validity flag is false is encoded as \<open>null\<close>,
  \<open>NullEmptyString\<close> included. An invalid \<open>NullEmptyString\<close> is encoded by
  \<open>json.Marshal("")\<close>, which gives the two bytes of the empty JSON string.
\<close>

theorem NullEmptyString_MarshalJSON_counterexample:
  "NullEmptyString_MarshalJSON \<lparr>String = [], Valid = False\<rparr> = ([CHR 0x22, CHR 0x22], None)
   \<and> fst (NullEmptyString_MarshalJSON \<lparr>String = [], Valid = False\<rparr>) \<noteq> ''null''"
  by (simp add: NullEmptyString_MarshalJSON_def json_Marshal_string_empty quoted_def)

text \<open>
  Claim C5, amended. For \<open>NullBool\<close>, \<open>NullInt\<close>, \<open>NullFloat\<close>, \<open>NullString\<close>, \<open>NullTime\<close>,
  \<open>JSONNullInt64\<close> and \<open>JSONNullFloat64\<close>, a wrapper whose validity flag is false is encoded as
  the literal \<open>null\<close>, without error. So is a valid \<open>NullInt\<close> holding 0, a valid \<open>NullFloat\<close>
  holding 0.0, a valid \<open>NullString\<close> holding the empty string and a valid \<open>NullTime\<close> holding
  the zero time. \<open>NullEmptyString\<close> encodes an invalid wrapper as the empty JSON string, and
  never produces \<open>null\<close>.
\<close>

theorem MarshalJSON_null:
  "(\<not> NullBool.Valid nb \<longrightarrow> NullBool_MarshalJSON nb = (''null'', None))
   \<and> (\<not> NullInt64.Valid ni \<or> Int64 ni = 0 \<longrightarrow> NullInt_MarshalJSON ni = (''null'', None))
   \<and> (\<not> NullFloat64.Valid nf \<or> f_is_zero L (Float64 nf) \<longrightarrow>
         NullFloat_MarshalJSON L nf = (''null'', None))
   \<and> (\<not> NullString.Valid ns \<or> String ns = [] \<longrightarrow> NullString_MarshalJSON ns = (''null'', None))
   \<and> (\<not> NullTime.Valid nt \<or> IsZero (Time nt) \<longrightarrow> NullTime_MarshalJSON Format nt = (''null'', None))
   \<and> (\<not> NullInt64.Valid ji \<longrightarrow> JSONNullInt64_MarshalJSON ji = (''null'', None))
   \<and> (\<not> NullFloat64.Valid jf \<longrightarrow> JSONNullFloat64_MarshalJSON L jf = (''null'', None))
   \<and> (\<not> NullString.Valid nes \<longrightarrow> NullEmptyString_MarshalJSON nes = (quoted [], None))
   \<and> fst (NullEmptyString_MarshalJSON nes) \<noteq> ''null''"
proof -
  have "fst (NullEmptyString_MarshalJSON nes) \<noteq> ''null''"
    using json_Marshal_string_quoted [of "[]"] json_Marshal_string_quoted [of "String nes"]
    by (auto simp: NullEmptyString_MarshalJSON_def quoted_not_null)
  then show ?thesis
    by (simp add: NullBool_MarshalJSON_def NullInt_MarshalJSON_def NullFloat_MarshalJSON_def
        NullString_MarshalJSON_def NullTime_MarshalJSON_def JSONNullInt64_MarshalJSON_def
        JSONNullFloat64_MarshalJSON_def NullEmptyString_MarshalJSON_def json_Marshal_nil_def
        json_Marshal_string_empty)
qed

theorem MarshalJSON_null_witness:
  "NullBool_MarshalJSON \<lparr>Bool = True, Valid = False\<rparr> = (''null'', None)
   \<and> NullInt_MarshalJSON \<lparr>Int64 = 0, Valid = True\<rparr> = (''null'', None)
   \<and> NullFloat_MarshalJSON whole_numbers \<lparr>Float64 = 0, Valid = True\<rparr> = (''null'', None)
   \<and> NullString_MarshalJSON \<lparr>String = [], Valid = True\<rparr> = (''null'', None)
   \<and> NullTime_MarshalJSON Format_2020 \<lparr>Time = zero_Time, Valid = True\<rparr> = (''null'', None)
   \<and> JSONNullInt64_MarshalJSON \<lparr>Int64 = 5, Valid = False\<rparr> = (''null'', None)
   \<and> JSONNullFloat64_MarshalJSON whole_numbers \<lparr>Float64 = 5, Valid = False\<rparr> = (''null'', None)
   \<and> NullEmptyString_MarshalJSON \<lparr>String = ''a'', Valid = False\<rparr> = (quoted [], None)"
  using MarshalJSON_null [of "\<lparr>Bool = True, Valid = False\<rparr>" "\<lparr>Int64 = 0, Valid = True\<rparr>"
      "\<lparr>Float64 = 0, Valid = True\<rparr>" whole_numbers "\<lparr>String = [], Valid = True\<rparr>"
      "\<lparr>Time = zero_Time, Valid = True\<rparr>" Format_2020 "\<lparr>Int64 = 5, Valid = False\<rparr>"
      "\<lparr>Float64 = 5, Valid = False\<rparr>" "\<lparr>String = ''a'', Valid = False\<rparr>"]
  by (simp add: whole_numbers_def zero_Time_def IsZero_def)

section \<open>Decoding the nullable wrappers\<close>


text \<open>
  When neither layout fits, \<open>NullTime.UnmarshalJSON\<close> returns the error of the second parse
  and stores its time, and leaves the validity flag as the receiver had it: a receiver that
  was valid stays valid.
\<close>

lemma NullTime_UnmarshalJSON_both_fail:
  "b \<noteq> ''null'' \<Longrightarrow> Parse (quoted ''2006-01-02'') b = (t1, Some e1) \<Longrightarrow>
   Parse (quoted RFC3339) b = (t2, Some e2) \<Longrightarrow>
   NullTime_UnmarshalJSON Parse nt b = (nt\<lparr>Time := t2\<rparr>, Some e2)"
  by (simp add: NullTime_UnmarshalJSON_def)

lemma NullTime_UnmarshalJSON_garbage:
  "NullTime_UnmarshalJSON Parse_2020 \<lparr>Time = midnight_2020, Valid = True\<rparr> (quoted ''garbage'') =
     (\<lparr>Time = zero_Time, Valid = True\<rparr>, Some LibError)"
  by (simp add: NullTime_UnmarshalJSON_def Parse_2020_def quoted_def RFC3339_def)



section \<open>Encoding, then decoding\<close>

lemma NullBool_roundtrip:
  "snd (NullBool_MarshalJSON nb) = None
   \<and> NullBool_UnmarshalJSON rb (fst (NullBool_MarshalJSON nb)) =
       ((if NullBool.Valid nb then \<lparr>Bool = Bool nb, Valid = True\<rparr> else rb\<lparr>NullBool.Valid := False\<rparr>), None)"
  by (simp add: NullBool_MarshalJSON_def NullBool_UnmarshalJSON_def json_Unmarshal_bool_Marshal
      json_Marshal_bool_not_null) (simp add: json_Marshal_bool_def)

lemma JSONNullInt64_roundtrip:
  "snd (JSONNullInt64_MarshalJSON ji) = None
   \<and> JSONNullInt64_UnmarshalJSON rji (fst (JSONNullInt64_MarshalJSON ji)) =
       ((if NullInt64.Valid ji then \<lparr>Int64 = Int64 ji, Valid = True\<rparr> else rji\<lparr>NullInt64.Valid := False\<rparr>), None)"
  by (simp add: JSONNullInt64_MarshalJSON_def JSONNullInt64_UnmarshalJSON_def json_Unmarshal_int64_ptr_Marshal
      json_Marshal_nil_def json_Unmarshal_int64_ptr_null) (simp add: json_Marshal_int64_def)

lemma NullInt_roundtrip_null:
  "\<not> NullInt64.Valid ni \<or> Int64 ni = 0 \<Longrightarrow>
   NullInt_MarshalJSON ni = (''null'', None)
   \<and> \<not> NullInt64.Valid (fst (NullInt_UnmarshalJSON L ri (fst (NullInt_MarshalJSON ni))))
   \<and> snd (NullInt_UnmarshalJSON L ri (fst (NullInt_MarshalJSON ni))) = None"
  by (auto simp: NullInt_MarshalJSON_def NullInt_UnmarshalJSON_def json_Unmarshal_float64_null)

lemma NullInt_roundtrip_value:
  assumes "NullInt64.Valid ni" and "Int64 ni \<noteq> 0"
    and "f_parse L (Itoa (sint (Int64 ni))) = Some f" and "f_to_int64 L f = Int64 ni"
  shows "NullInt_UnmarshalJSON L ri (fst (NullInt_MarshalJSON ni)) = (\<lparr>Int64 = Int64 ni, Valid = True\<rparr>, None)"
  using assms
  by (simp add: NullInt_MarshalJSON_def NullInt_UnmarshalJSON_def json_Marshal_int64_def
      json_Unmarshal_float64_def trimSpace_Itoa Itoa_not_null)

lemma NullFloat_roundtrip_null:
  "\<not> NullFloat64.Valid nf \<or> f_is_zero L (Float64 nf) \<Longrightarrow>
   NullFloat_MarshalJSON L nf = (''null'', None)
   \<and> NullFloat_UnmarshalJSON L rf (fst (NullFloat_MarshalJSON L nf)) = (rf\<lparr>NullFloat64.Valid := False\<rparr>, None)"
  by (auto simp: NullFloat_MarshalJSON_def NullFloat_UnmarshalJSON_def json_Unmarshal_float64_null)

lemma NullFloat_roundtrip_value:
  assumes "NullFloat64.Valid nf" and "\<not> f_is_zero L (Float64 nf)"
    and "f_format L (Float64 nf) = (b, None)" and "b \<noteq> ''null''" and "trimSpace b \<noteq> ''null''"
    and "f_parse L (trimSpace b) = Some (Float64 nf)"
  shows "NullFloat_UnmarshalJSON L rf (fst (NullFloat_MarshalJSON L nf)) = (\<lparr>Float64 = Float64 nf, Valid = True\<rparr>, None)"
  using assms
  by (simp add: NullFloat_MarshalJSON_def NullFloat_UnmarshalJSON_def json_Marshal_float64_def
      json_Unmarshal_float64_def)

lemma NullString_roundtrip_null:
  "\<not> NullString.Valid ns \<or> String ns = [] \<Longrightarrow>
   NullString_MarshalJSON ns = (''null'', None)
   \<and> NullString_UnmarshalJSON rs (fst (NullString_MarshalJSON ns)) = (rs\<lparr>NullString.Valid := False\<rparr>, None)"
  by (auto simp: NullString_MarshalJSON_def NullString_UnmarshalJSON_def)

lemma NullString_roundtrip_value:
  assumes "NullString.Valid ns" and "String ns \<noteq> []"
    and "json_Unmarshal_string (fst (json_Marshal_string (String ns))) (String rs) = (String ns, None)"
  shows "NullString_UnmarshalJSON rs (fst (NullString_MarshalJSON ns)) = (\<lparr>String = String ns, Valid = True\<rparr>, None)"
  using assms fst_json_Marshal_string_props [of "String ns"]
  by (simp add: NullString_MarshalJSON_def NullString_UnmarshalJSON_def)

lemma NullEmptyString_roundtrip_invalid:
  "\<not> NullString.Valid nes \<Longrightarrow>
   NullEmptyString_UnmarshalJSON re (fst (NullEmptyString_MarshalJSON nes)) = (\<lparr>String = [], Valid = True\<rparr>, None)"
  using json_string_roundtrip_safe [of "[]" "String re"]
  by (simp add: NullEmptyString_MarshalJSON_def NullEmptyString_UnmarshalJSON_def)

lemma NullEmptyString_roundtrip_value:
  assumes "NullString.Valid nes"
    and "json_Unmarshal_string (fst (json_Marshal_string (String nes))) (String re) = (String nes, None)"
  shows "NullEmptyString_UnmarshalJSON re (fst (NullEmptyString_MarshalJSON nes)) = (\<lparr>String = String nes, Valid = True\<rparr>, None)"
  using assms by (simp add: NullEmptyString_MarshalJSON_def NullEmptyString_UnmarshalJSON_def)

lemma NullTime_roundtrip_null:
  "\<not> NullTime.Valid nt \<or> IsZero (Time nt) \<Longrightarrow>
   NullTime_MarshalJSON Format nt = (''null'', None)
   \<and> NullTime_UnmarshalJSON Parse rt (fst (NullTime_MarshalJSON Format nt)) = (rt\<lparr>NullTime.Valid := False\<rparr>, None)"
  by (auto simp: NullTime_MarshalJSON_def NullTime_UnmarshalJSON_def)

lemma NullTime_roundtrip_value:
  assumes "NullTime.Valid nt" and "\<not> IsZero (Time nt)"
    and "Parse (quoted ''2006-01-02'') (fst (json_Marshal_string (Format (Time nt) ''2006-01-02''))) = (Time nt, None)"
  shows "NullTime_UnmarshalJSON Parse rt (fst (NullTime_MarshalJSON Format nt)) = (\<lparr>Time = Time nt, Valid = True\<rparr>, None)"
  using assms fst_json_Marshal_string_props [of "Format (Time nt) ''2006-01-02''"]
  by (simp add: NullTime_MarshalJSON_def NullTime_UnmarshalJSON_def)

lemma JSONNullFloat64_roundtrip_null:
  "\<not> NullFloat64.Valid jf \<Longrightarrow>
   JSONNullFloat64_MarshalJSON L jf = (''null'', None)
   \<and> JSONNullFloat64_UnmarshalJSON L rjf (fst (JSONNullFloat64_MarshalJSON L jf)) = (rjf\<lparr>NullFloat64.Valid := False\<rparr>, None)"
  by (simp add: JSONNullFloat64_MarshalJSON_def JSONNullFloat64_UnmarshalJSON_def json_Marshal_nil_def
      json_Unmarshal_float64_ptr_null)

lemma JSONNullFloat64_roundtrip_value:
  assumes "NullFloat64.Valid jf"
    and "f_format L (Float64 jf) = (b', None)" and "trimSpace b' \<noteq> ''null''"
    and "f_parse L (trimSpace b') = Some (Float64 jf)"
  shows "JSONNullFloat64_UnmarshalJSON L rjf (fst (JSONNullFloat64_MarshalJSON L jf)) = (\<lparr>Float64 = Float64 jf, Valid = True\<rparr>, None)"
  using assms
  by (simp add: JSONNullFloat64_MarshalJSON_def JSONNullFloat64_UnmarshalJSON_def json_Marshal_float64_def
      json_Unmarshal_float64_ptr_def)

text \<open>
  Claim C2 states that encoding and then decoding a wrapper keeps its validity flag, unless a
  valid wrapper holds a zero or empty value. An invalid \<open>NullEmptyString\<close> is encoded as the
  empty JSON string and decoded as a valid wrapper holding the empty string.
\<close>

theorem NullEmptyString_roundtrip_counterexample:
  "NullEmptyString_UnmarshalJSON \<lparr>String = [], Valid = False\<rparr>
     (fst (NullEmptyString_MarshalJSON \<lparr>String = [], Valid = False\<rparr>)) =
   (\<lparr>String = [], Valid = True\<rparr>, None)"
  by (simp add: NullEmptyString_UnmarshalJSON_def NullEmptyString_MarshalJSON_def
      json_Marshal_string_empty json_string_roundtrip_safe [of "[]", unfolded json_Marshal_string_empty, simplified])

text \<open>
  Claim C2, amended. The result of decoding, into any receiver, what \<open>MarshalJSON\<close> produced:
  \<^item> \<open>NullBool\<close> and \<open>JSONNullInt64\<close> keep the validity flag, and the value of a valid wrapper;
    decoding an invalid one clears the flag of the receiver and leaves its value.
  \<^item> \<open>NullInt\<close>, \<open>NullFloat\<close>, \<open>NullString\<close> and \<open>NullTime\<close>: an invalid wrapper, and a valid one
    holding 0, 0.0, the empty string or the zero time, is encoded as \<open>null\<close> and decoded as
    invalid. A valid wrapper holding another value is decoded as valid with the same value
    whenever the library reads that value back from its own encoding: the number from its
    decimal form, the string from its JSON literal, the time from its day in the layout
    \<open>"2006-01-02"\<close>.
  \<^item> \<open>JSONNullFloat64\<close>: an invalid wrapper is decoded as invalid, a valid one as valid with
    the same number whenever the library reads the number back from its encoding.
  \<^item> \<open>NullEmptyString\<close>: a valid wrapper is decoded as valid with the same string whenever
    the library reads the string back; an invalid one is decoded as valid with the empty
    string.
\<close>

theorem MarshalJSON_UnmarshalJSON_roundtrip:
  "(snd (NullBool_MarshalJSON nb) = None
     \<and> NullBool_UnmarshalJSON rb (fst (NullBool_MarshalJSON nb)) =
         ((if NullBool.Valid nb then \<lparr>Bool = Bool nb, Valid = True\<rparr> else rb\<lparr>NullBool.Valid := False\<rparr>), None))
   \<and> (snd (JSONNullInt64_MarshalJSON ji) = None
     \<and> JSONNullInt64_UnmarshalJSON rji (fst (JSONNullInt64_MarshalJSON ji)) =
         ((if NullInt64.Valid ji then \<lparr>Int64 = Int64 ji, Valid = True\<rparr> else rji\<lparr>NullInt64.Valid := False\<rparr>), None))
   \<and> ((\<not> NullInt64.Valid ni \<or> Int64 ni = 0 \<longrightarrow>
          NullInt_MarshalJSON ni = (''null'', None)
          \<and> \<not> NullInt64.Valid (fst (NullInt_UnmarshalJSON L ri (fst (NullInt_MarshalJSON ni))))
          \<and> snd (NullInt_UnmarshalJSON L ri (fst (NullInt_MarshalJSON ni))) = None)
     \<and> (NullInt64.Valid ni \<and> Int64 ni \<noteq> 0
          \<and> f_parse L (Itoa (sint (Int64 ni))) = Some f \<and> f_to_int64 L f = Int64 ni \<longrightarrow>
          NullInt_UnmarshalJSON L ri (fst (NullInt_MarshalJSON ni)) = (\<lparr>Int64 = Int64 ni, Valid = True\<rparr>, None)))
   \<and> ((\<not> NullFloat64.Valid nf \<or> f_is_zero L (Float64 nf) \<longrightarrow>
          NullFloat_MarshalJSON L nf = (''null'', None)
          \<and> NullFloat_UnmarshalJSON L rf (fst (NullFloat_MarshalJSON L nf)) = (rf\<lparr>NullFloat64.Valid := False\<rparr>, None))
     \<and> (NullFloat64.Valid nf \<and> \<not> f_is_zero L (Float64 nf)
          \<and> f_format L (Float64 nf) = (b, None) \<and> b \<noteq> ''null'' \<and> trimSpace b \<noteq> ''null''
          \<and> f_parse L (trimSpace b) = Some (Float64 nf) \<longrightarrow>
          NullFloat_UnmarshalJSON L rf (fst (NullFloat_MarshalJSON L nf)) = (\<lparr>Float64 = Float64 nf, Valid = True\<rparr>, None)))
   \<and> ((\<not> NullString.Valid ns \<or> String ns = [] \<longrightarrow>
          NullString_MarshalJSON ns = (''null'', None)
          \<and> NullString_UnmarshalJSON rs (fst (NullString_MarshalJSON ns)) = (rs\<lparr>NullString.Valid := False\<rparr>, None))
     \<and> (NullString.Valid ns \<and> String ns \<noteq> []
          \<and> json_Unmarshal_string (fst (json_Marshal_string (String ns))) (String rs) = (String ns, None) \<longrightarrow>
          NullString_UnmarshalJSON rs (fst (NullString_MarshalJSON ns)) = (\<lparr>String = String ns, Valid = True\<rparr>, None)))
   \<and> ((\<not> NullString.Valid nes \<longrightarrow>
          NullEmptyString_UnmarshalJSON re (fst (NullEmptyString_MarshalJSON nes)) = (\<lparr>String = [], Valid = True\<rparr>, None))
     \<and> (NullString.Valid nes
          \<and> json_Unmarshal_string (fst (json_Marshal_string (String nes))) (String re) = (String nes, None) \<longrightarrow>
          NullEmptyString_UnmarshalJSON re (fst (NullEmptyString_MarshalJSON nes)) =
            (\<lparr>String = String nes, Valid = True\<rparr>, None)))
   \<and> ((\<not> NullTime.Valid nt \<or> IsZero (Time nt) \<longrightarrow>
          NullTime_MarshalJSON Format nt = (''null'', None)
          \<and> NullTime_UnmarshalJSON Parse rt (fst (NullTime_MarshalJSON Format nt)) = (rt\<lparr>NullTime.Valid := False\<rparr>, None))
     \<and> (NullTime.Valid nt \<and> \<not> IsZero (Time nt)
          \<and> Parse (quoted ''2006-01-02'') (fst (json_Marshal_string (Format (Time nt) ''2006-01-02''))) = (Time nt, None) \<longrightarrow>
          NullTime_UnmarshalJSON Parse rt (fst (NullTime_MarshalJSON Format nt)) = (\<lparr>Time = Time nt, Valid = True\<rparr>, None)))
   \<and> ((\<not> NullFloat64.Valid jf \<longrightarrow>
          JSONNullFloat64_MarshalJSON L jf = (''null'', None)
          \<and> JSONNullFloat64_UnmarshalJSON L rjf (fst (JSONNullFloat64_MarshalJSON L jf)) = (rjf\<lparr>NullFloat64.Valid := False\<rparr>, None))
     \<and> (NullFloat64.Valid jf
          \<and> f_format L (Float64 jf) = (b', None) \<and> trimSpace b' \<noteq> ''null''
          \<and> f_parse L (trimSpace b') = Some (Float64 jf) \<longrightarrow>
          JSONNullFloat64_UnmarshalJSON L rjf (fst (JSONNullFloat64_MarshalJSON L jf)) =
            (\<lparr>Float64 = Float64 jf, Valid = True\<rparr>, None)))"
proof (intro conjI impI)
  show "snd (NullBool_MarshalJSON nb) = None"
    and "NullBool_UnmarshalJSON rb (fst (NullBool_MarshalJSON nb)) =
         ((if NullBool.Valid nb then \<lparr>Bool = Bool nb, Valid = True\<rparr> else rb\<lparr>NullBool.Valid := False\<rparr>), None)"
    using NullBool_roundtrip [of nb rb] by blast+
  show "snd (JSONNullInt64_MarshalJSON ji) = None"
    and "JSONNullInt64_UnmarshalJSON rji (fst (JSONNullInt64_MarshalJSON ji)) =
         ((if NullInt64.Valid ji then \<lparr>Int64 = Int64 ji, Valid = True\<rparr> else rji\<lparr>NullInt64.Valid := False\<rparr>), None)"
    using JSONNullInt64_roundtrip [of ji rji] by blast+
next
  assume a: "\<not> NullInt64.Valid ni \<or> Int64 ni = 0"
  show "NullInt_MarshalJSON ni = (''null'', None)"
    and "\<not> NullInt64.Valid (fst (NullInt_UnmarshalJSON L ri (fst (NullInt_MarshalJSON ni))))"
    and "snd (NullInt_UnmarshalJSON L ri (fst (NullInt_MarshalJSON ni))) = None"
    using NullInt_roundtrip_null [OF a, of L ri] by blast+
next
  assume "NullInt64.Valid ni \<and> Int64 ni \<noteq> 0
          \<and> f_parse L (Itoa (sint (Int64 ni))) = Some f \<and> f_to_int64 L f = Int64 ni"
  then show "NullInt_UnmarshalJSON L ri (fst (NullInt_MarshalJSON ni)) = (\<lparr>Int64 = Int64 ni, Valid = True\<rparr>, None)"
    by (intro NullInt_roundtrip_value [where f = f]) simp_all
next
  assume a: "\<not> NullFloat64.Valid nf \<or> f_is_zero L (Float64 nf)"
  show "NullFloat_MarshalJSON L nf = (''null'', None)"
    and "NullFloat_UnmarshalJSON L rf (fst (NullFloat_MarshalJSON L nf)) = (rf\<lparr>NullFloat64.Valid := False\<rparr>, None)"
    using NullFloat_roundtrip_null [OF a, of rf] by blast+
next
  assume "NullFloat64.Valid nf \<and> \<not> f_is_zero L (Float64 nf)
          \<and> f_format L (Float64 nf) = (b, None) \<and> b \<noteq> ''null'' \<and> trimSpace b \<noteq> ''null''
          \<and> f_parse L (trimSpace b) = Some (Float64 nf)"
  then show "NullFloat_UnmarshalJSON L rf (fst (NullFloat_MarshalJSON L nf)) = (\<lparr>Float64 = Float64 nf, Valid = True\<rparr>, None)"
    by (intro NullFloat_roundtrip_value [where b = b]) simp_all
next
  assume a: "\<not> NullString.Valid ns \<or> String ns = []"
  show "NullString_MarshalJSON ns = (''null'', None)"
    and "NullString_UnmarshalJSON rs (fst (NullString_MarshalJSON ns)) = (rs\<lparr>NullString.Valid := False\<rparr>, None)"
    using NullString_roundtrip_null [OF a, of rs] by blast+
next
  assume "NullString.Valid ns \<and> String ns \<noteq> []
          \<and> json_Unmarshal_string (fst (json_Marshal_string (String ns))) (String rs) = (String ns, None)"
  then show "NullString_UnmarshalJSON rs (fst (NullString_MarshalJSON ns)) = (\<lparr>String = String ns, Valid = True\<rparr>, None)"
    by (intro NullString_roundtrip_value) simp_all
next
  assume "\<not> NullString.Valid nes"
  then show "NullEmptyString_UnmarshalJSON re (fst (NullEmptyString_MarshalJSON nes)) = (\<lparr>String = [], Valid = True\<rparr>, None)"
    by (rule NullEmptyString_roundtrip_invalid)
next
  assume "NullString.Valid nes
          \<and> json_Unmarshal_string (fst (json_Marshal_string (String nes))) (String re) = (String nes, None)"
  then show "NullEmptyString_UnmarshalJSON re (fst (NullEmptyString_MarshalJSON nes)) =
            (\<lparr>String = String nes, Valid = True\<rparr>, None)"
    by (intro NullEmptyString_roundtrip_value) simp_all
next
  assume a: "\<not> NullTime.Valid nt \<or> IsZero (Time nt)"
  show "NullTime_MarshalJSON Format nt = (''null'', None)"
    and "NullTime_UnmarshalJSON Parse rt (fst (NullTime_MarshalJSON Format nt)) = (rt\<lparr>NullTime.Valid := False\<rparr>, None)"
    using NullTime_roundtrip_null [OF a, of Format Parse rt] by blast+
next
  assume "NullTime.Valid nt \<and> \<not> IsZero (Time nt)
          \<and> Parse (quoted ''2006-01-02'') (fst (json_Marshal_string (Format (Time nt) ''2006-01-02''))) = (Time nt, None)"
  then show "NullTime_UnmarshalJSON Parse rt (fst (NullTime_MarshalJSON Format nt)) = (\<lparr>Time = Time nt, Valid = True\<rparr>, None)"
    by (intro NullTime_roundtrip_value) simp_all
next
  assume a: "\<not> NullFloat64.Valid jf"
  show "JSONNullFloat64_MarshalJSON L jf = (''null'', None)"
    and "JSONNullFloat64_UnmarshalJSON L rjf (fst (JSONNullFloat64_MarshalJSON L jf)) = (rjf\<lparr>NullFloat64.Valid := False\<rparr>, None)"
    using JSONNullFloat64_roundtrip_null [OF a, of L rjf] by blast+
next
  assume "NullFloat64.Valid jf
          \<and> f_format L (Float64 jf) = (b', None) \<and> trimSpace b' \<noteq> ''null''
          \<and> f_parse L (trimSpace b') = Some (Float64 jf)"
  then show "JSONNullFloat64_UnmarshalJSON L rjf (fst (JSONNullFloat64_MarshalJSON L jf)) =
            (\<lparr>Float64 = Float64 jf, Valid = True\<rparr>, None)"
    by (intro JSONNullFloat64_roundtrip_value [where b' = b']) simp_all
qed

theorem MarshalJSON_UnmarshalJSON_roundtrip_witness:
  "NullBool_UnmarshalJSON \<lparr>Bool = False, Valid = False\<rparr> (fst (NullBool_MarshalJSON \<lparr>Bool = True, Valid = True\<rparr>)) =
     (\<lparr>Bool = True, Valid = True\<rparr>, None)
   \<and> JSONNullInt64_UnmarshalJSON \<lparr>Int64 = 0, Valid = False\<rparr> (fst (JSONNullInt64_MarshalJSON \<lparr>Int64 = - 5, Valid = True\<rparr>)) =
     (\<lparr>Int64 = - 5, Valid = True\<rparr>, None)
   \<and> \<not> NullInt64.Valid (fst (NullInt_UnmarshalJSON whole_numbers \<lparr>Int64 = 3, Valid = True\<rparr>
                                (fst (NullInt_MarshalJSON \<lparr>Int64 = 0, Valid = True\<rparr>))))
   \<and> NullInt_UnmarshalJSON whole_numbers \<lparr>Int64 = 0, Valid = False\<rparr> (fst (NullInt_MarshalJSON \<lparr>Int64 = 12, Valid = True\<rparr>)) =
     (\<lparr>Int64 = 12, Valid = True\<rparr>, None)
   \<and> NullFloat_UnmarshalJSON whole_numbers \<lparr>Float64 = 3, Valid = True\<rparr>
        (fst (NullFloat_MarshalJSON whole_numbers \<lparr>Float64 = 0, Valid = True\<rparr>)) = (\<lparr>Float64 = 3, Valid = False\<rparr>, None)
   \<and> NullFloat_UnmarshalJSON whole_numbers \<lparr>Float64 = 0, Valid = False\<rparr>
        (fst (NullFloat_MarshalJSON whole_numbers \<lparr>Float64 = 12, Valid = True\<rparr>)) = (\<lparr>Float64 = 12, Valid = True\<rparr>, None)
   \<and> NullString_UnmarshalJSON \<lparr>String = ''a'', Valid = True\<rparr> (fst (NullString_MarshalJSON \<lparr>String = [], Valid = True\<rparr>)) =
     (\<lparr>String = ''a'', Valid = False\<rparr>, None)
   \<and> NullString_UnmarshalJSON \<lparr>String = [], Valid = False\<rparr> (fst (NullString_MarshalJSON \<lparr>String = ''my label'', Valid = True\<rparr>)) =
     (\<lparr>String = ''my label'', Valid = True\<rparr>, None)
   \<and> NullEmptyString_UnmarshalJSON \<lparr>String = ''a'', Valid = False\<rparr>
        (fst (NullEmptyString_MarshalJSON \<lparr>String = ''b'', Valid = False\<rparr>)) = (\<lparr>String = [], Valid = True\<rparr>, None)
   \<and> NullEmptyString_UnmarshalJSON \<lparr>String = [], Valid = False\<rparr>
        (fst (NullEmptyString_MarshalJSON \<lparr>String = ''my label'', Valid = True\<rparr>)) =
     (\<lparr>String = ''my label'', Valid = True\<rparr>, None)
   \<and> NullTime_UnmarshalJSON Parse_2020 \<lparr>Time = midnight_2020, Valid = True\<rparr>
        (fst (NullTime_MarshalJSON Format_2020 \<lparr>Time = zero_Time, Valid = True\<rparr>)) =
     (\<lparr>Time = midnight_2020, Valid = False\<rparr>, None)
   \<and> NullTime_UnmarshalJSON Parse_2020 \<lparr>Time = zero_Time, Valid = False\<rparr>
        (fst (NullTime_MarshalJSON Format_2020 \<lparr>Time = midnight_2020, Valid = True\<rparr>)) =
     (\<lparr>Time = midnight_2020, Valid = True\<rparr>, None)
   \<and> JSONNullFloat64_UnmarshalJSON whole_numbers \<lparr>Float64 = 3, Valid = True\<rparr>
        (fst (JSONNullFloat64_MarshalJSON whole_numbers \<lparr>Float64 = 12, Valid = False\<rparr>)) = (\<lparr>Float64 = 3, Valid = False\<rparr>, None)
   \<and> JSONNullFloat64_UnmarshalJSON whole_numbers \<lparr>Float64 = 0, Valid = False\<rparr>
        (fst (JSONNullFloat64_MarshalJSON whole_numbers \<lparr>Float64 = 12, Valid = True\<rparr>)) = (\<lparr>Float64 = 12, Valid = True\<rparr>, None)"
proof -
  note rt = MarshalJSON_UnmarshalJSON_roundtrip
  have w1: "NullBool_UnmarshalJSON \<lparr>Bool = False, Valid = False\<rparr> (fst (NullBool_MarshalJSON \<lparr>Bool = True, Valid = True\<rparr>)) =
     (\<lparr>Bool = True, Valid = True\<rparr>, None)"
    using rt [where nb = "\<lparr>Bool = True, Valid = True\<rparr>" and rb = "\<lparr>Bool = False, Valid = False\<rparr>",
        THEN conjunct1, THEN conjunct2]
    by simp
  have w2: "JSONNullInt64_UnmarshalJSON \<lparr>Int64 = 0, Valid = False\<rparr> (fst (JSONNullInt64_MarshalJSON \<lparr>Int64 = - 5, Valid = True\<rparr>)) =
     (\<lparr>Int64 = - 5, Valid = True\<rparr>, None)"
    using rt [where ji = "\<lparr>Int64 = - 5, Valid = True\<rparr>" and rji = "\<lparr>Int64 = 0, Valid = False\<rparr>",
        THEN conjunct2, THEN conjunct1, THEN conjunct2]
    by simp
  have h3: "\<not> NullInt64.Valid \<lparr>Int64 = 0, Valid = True\<rparr> \<or> Int64 \<lparr>Int64 = 0, Valid = True\<rparr> = 0"
    by simp
  have w3: "\<not> NullInt64.Valid (fst (NullInt_UnmarshalJSON whole_numbers \<lparr>Int64 = 3, Valid = True\<rparr>
                                (fst (NullInt_MarshalJSON \<lparr>Int64 = 0, Valid = True\<rparr>))))"
    by (rule rt [where ni = "\<lparr>Int64 = 0, Valid = True\<rparr>" and ri = "\<lparr>Int64 = 3, Valid = True\<rparr>" and L = whole_numbers,
        THEN conjunct2, THEN conjunct2, THEN conjunct1, THEN conjunct1, THEN mp, OF h3,
        THEN conjunct2, THEN conjunct1])
  have h4: "NullInt64.Valid \<lparr>Int64 = 12, Valid = True\<rparr> \<and> Int64 \<lparr>Int64 = 12, Valid = True\<rparr> \<noteq> 0
      \<and> f_parse whole_numbers (Itoa (sint (Int64 \<lparr>Int64 = 12, Valid = True\<rparr>))) = Some 12
      \<and> f_to_int64 whole_numbers 12 = Int64 \<lparr>Int64 = 12, Valid = True\<rparr>"
    by (simp add: Itoa_12 whole_numbers_12)
  have w4: "NullInt_UnmarshalJSON whole_numbers \<lparr>Int64 = 0, Valid = False\<rparr> (fst (NullInt_MarshalJSON \<lparr>Int64 = 12, Valid = True\<rparr>)) =
     (\<lparr>Int64 = 12, Valid = True\<rparr>, None)"
    using rt [where ni = "\<lparr>Int64 = 12, Valid = True\<rparr>" and ri = "\<lparr>Int64 = 0, Valid = False\<rparr>" and L = whole_numbers
        and f = 12, THEN conjunct2, THEN conjunct2, THEN conjunct1, THEN conjunct2, THEN mp, OF h4]
    by simp
  have h5: "\<not> NullFloat64.Valid \<lparr>Float64 = 0 :: int, Valid = True\<rparr>
      \<or> f_is_zero whole_numbers (Float64 \<lparr>Float64 = 0 :: int, Valid = True\<rparr>)"
    by (simp add: whole_numbers_12)
  have w5: "NullFloat_UnmarshalJSON whole_numbers \<lparr>Float64 = 3, Valid = True\<rparr>
        (fst (NullFloat_MarshalJSON whole_numbers \<lparr>Float64 = 0, Valid = True\<rparr>)) = (\<lparr>Float64 = 3, Valid = False\<rparr>, None)"
    using rt [where nf = "\<lparr>Float64 = 0, Valid = True\<rparr>" and rf = "\<lparr>Float64 = 3, Valid = True\<rparr>" and L = whole_numbers,
        THEN conjunct2, THEN conjunct2, THEN conjunct2, THEN conjunct1, THEN conjunct1, THEN mp, OF h5, THEN conjunct2]
    by simp
  have h6: "NullFloat64.Valid \<lparr>Float64 = 12 :: int, Valid = True\<rparr>
      \<and> \<not> f_is_zero whole_numbers (Float64 \<lparr>Float64 = 12 :: int, Valid = True\<rparr>)
      \<and> f_format whole_numbers (Float64 \<lparr>Float64 = 12 :: int, Valid = True\<rparr>) = (''12'', None)
      \<and> ''12'' \<noteq> ''null'' \<and> trimSpace ''12'' \<noteq> ''null''
      \<and> f_parse whole_numbers (trimSpace ''12'') = Some (Float64 \<lparr>Float64 = 12 :: int, Valid = True\<rparr>)"
    by (simp add: whole_numbers_12 trimSpace_12)
  have w6: "NullFloat_UnmarshalJSON whole_numbers \<lparr>Float64 = 0, Valid = False\<rparr>
        (fst (NullFloat_MarshalJSON whole_numbers \<lparr>Float64 = 12, Valid = True\<rparr>)) = (\<lparr>Float64 = 12, Valid = True\<rparr>, None)"
    using rt [where nf = "\<lparr>Float64 = 12, Valid = True\<rparr>" and rf = "\<lparr>Float64 = 0, Valid = False\<rparr>" and L = whole_numbers
        and b = "''12''", THEN conjunct2, THEN conjunct2, THEN conjunct2, THEN conjunct1, THEN conjunct2, THEN mp, OF h6]
    by simp
  have h7: "\<not> NullString.Valid \<lparr>String = [], Valid = True\<rparr> \<or> String \<lparr>String = [], Valid = True\<rparr> = []"
    by simp
  have w7: "NullString_UnmarshalJSON \<lparr>String = ''a'', Valid = True\<rparr> (fst (NullString_MarshalJSON \<lparr>String = [], Valid = True\<rparr>)) =
     (\<lparr>String = ''a'', Valid = False\<rparr>, None)"
    using rt [where ns = "\<lparr>String = [], Valid = True\<rparr>" and rs = "\<lparr>String = ''a'', Valid = True\<rparr>",
        THEN conjunct2, THEN conjunct2, THEN conjunct2, THEN conjunct2, THEN conjunct1, THEN conjunct1,
        THEN mp, OF h7, THEN conjunct2]
    by simp
  have h8: "NullString.Valid \<lparr>String = ''my label'', Valid = True\<rparr> \<and> String \<lparr>String = ''my label'', Valid = True\<rparr> \<noteq> []
      \<and> json_Unmarshal_string (fst (json_Marshal_string (String \<lparr>String = ''my label'', Valid = True\<rparr>)))
          (String \<lparr>String = [], Valid = False\<rparr>) = (String \<lparr>String = ''my label'', Valid = True\<rparr>, None)"
    by (simp add: my_label_roundtrip)
  have w8: "NullString_UnmarshalJSON \<lparr>String = [], Valid = False\<rparr> (fst (NullString_MarshalJSON \<lparr>String = ''my label'', Valid = True\<rparr>)) =
     (\<lparr>String = ''my label'', Valid = True\<rparr>, None)"
    using rt [where ns = "\<lparr>String = ''my label'', Valid = True\<rparr>" and rs = "\<lparr>String = [], Valid = False\<rparr>",
        THEN conjunct2, THEN conjunct2, THEN conjunct2, THEN conjunct2, THEN conjunct1, THEN conjunct2, THEN mp, OF h8]
    by simp
  have h9: "\<not> NullString.Valid \<lparr>String = ''b'', Valid = False\<rparr>"
    by simp
  have w9: "NullEmptyString_UnmarshalJSON \<lparr>String = ''a'', Valid = False\<rparr>
        (fst (NullEmptyString_MarshalJSON \<lparr>String = ''b'', Valid = False\<rparr>)) = (\<lparr>String = [], Valid = True\<rparr>, None)"
    by (rule rt [where nes = "\<lparr>String = ''b'', Valid = False\<rparr>" and re = "\<lparr>String = ''a'', Valid = False\<rparr>",
        THEN conjunct2, THEN conjunct2, THEN conjunct2, THEN conjunct2, THEN conjunct2, THEN conjunct1, THEN conjunct1,
        THEN mp, OF h9])
  have h10: "NullString.Valid \<lparr>String = ''my label'', Valid = True\<rparr>
      \<and> json_Unmarshal_string (fst (json_Marshal_string (String \<lparr>String = ''my label'', Valid = True\<rparr>)))
          (String \<lparr>String = [], Valid = False\<rparr>) = (String \<lparr>String = ''my label'', Valid = True\<rparr>, None)"
    by (simp add: my_label_roundtrip)
  have w10: "NullEmptyString_UnmarshalJSON \<lparr>String = [], Valid = False\<rparr>
        (fst (NullEmptyString_MarshalJSON \<lparr>String = ''my label'', Valid = True\<rparr>)) =
     (\<lparr>String = ''my label'', Valid = True\<rparr>, None)"
    using rt [where nes = "\<lparr>String = ''my label'', Valid = True\<rparr>" and re = "\<lparr>String = [], Valid = False\<rparr>",
        THEN conjunct2, THEN conjunct2, THEN conjunct2, THEN conjunct2, THEN conjunct2, THEN conjunct1, THEN conjunct2,
        THEN mp, OF h10]
    by simp
  have h11: "\<not> NullTime.Valid \<lparr>Time = zero_Time, Valid = True\<rparr> \<or> IsZero (Time \<lparr>Time = zero_Time, Valid = True\<rparr>)"
    by (simp add: IsZero_def zero_Time_def)
  have w11: "NullTime_UnmarshalJSON Parse_2020 \<lparr>Time = midnight_2020, Valid = True\<rparr>
        (fst (NullTime_MarshalJSON Format_2020 \<lparr>Time = zero_Time, Valid = True\<rparr>)) =
     (\<lparr>Time = midnight_2020, Valid = False\<rparr>, None)"
    using rt [where nt = "\<lparr>Time = zero_Time, Valid = True\<rparr>" and rt = "\<lparr>Time = midnight_2020, Valid = True\<rparr>"
        and Parse = Parse_2020 and Format = Format_2020,
        THEN conjunct2, THEN conjunct2, THEN conjunct2, THEN conjunct2, THEN conjunct2, THEN conjunct2,
        THEN conjunct1, THEN conjunct1, THEN mp, OF h11, THEN conjunct2]
    by simp
  have h12: "NullTime.Valid \<lparr>Time = midnight_2020, Valid = True\<rparr> \<and> \<not> IsZero (Time \<lparr>Time = midnight_2020, Valid = True\<rparr>)
      \<and> Parse_2020 (quoted ''2006-01-02'')
           (fst (json_Marshal_string (Format_2020 (Time \<lparr>Time = midnight_2020, Valid = True\<rparr>) ''2006-01-02''))) =
         (Time \<lparr>Time = midnight_2020, Valid = True\<rparr>, None)"
    by (simp add: Parse_Format_2020) (simp add: IsZero_def midnight_2020_def)
  have w12: "NullTime_UnmarshalJSON Parse_2020 \<lparr>Time = zero_Time, Valid = False\<rparr>
        (fst (NullTime_MarshalJSON Format_2020 \<lparr>Time = midnight_2020, Valid = True\<rparr>)) =
     (\<lparr>Time = midnight_2020, Valid = True\<rparr>, None)"
    using rt [where nt = "\<lparr>Time = midnight_2020, Valid = True\<rparr>" and rt = "\<lparr>Time = zero_Time, Valid = False\<rparr>"
        and Parse = Parse_2020 and Format = Format_2020,
        THEN conjunct2, THEN conjunct2, THEN conjunct2, THEN conjunct2, THEN conjunct2, THEN conjunct2,
        THEN conjunct1, THEN conjunct2, THEN mp, OF h12]
    by simp
  have h13: "\<not> NullFloat64.Valid \<lparr>Float64 = 12 :: int, Valid = False\<rparr>"
    by simp
  have w13: "JSONNullFloat64_UnmarshalJSON whole_numbers \<lparr>Float64 = 3, Valid = True\<rparr>
        (fst (JSONNullFloat64_MarshalJSON whole_numbers \<lparr>Float64 = 12, Valid = False\<rparr>)) = (\<lparr>Float64 = 3, Valid = False\<rparr>, None)"
    using rt [where jf = "\<lparr>Float64 = 12, Valid = False\<rparr>" and rjf = "\<lparr>Float64 = 3, Valid = True\<rparr>" and L = whole_numbers,
        THEN conjunct2, THEN conjunct2, THEN conjunct2, THEN conjunct2, THEN conjunct2, THEN conjunct2,
        THEN conjunct2, THEN conjunct1, THEN mp, OF h13, THEN conjunct2]
    by simp
  have h14: "NullFloat64.Valid \<lparr>Float64 = 12 :: int, Valid = True\<rparr>
      \<and> f_format whole_numbers (Float64 \<lparr>Float64 = 12 :: int, Valid = True\<rparr>) = (''12'', None)
      \<and> trimSpace ''12'' \<noteq> ''null''
      \<and> f_parse whole_numbers (trimSpace ''12'') = Some (Float64 \<lparr>Float64 = 12 :: int, Valid = True\<rparr>)"
    by (simp add: whole_numbers_12 trimSpace_12)
  have w14: "JSONNullFloat64_UnmarshalJSON whole_numbers \<lparr>Float64 = 0, Valid = False\<rparr>
        (fst (JSONNullFloat64_MarshalJSON whole_numbers \<lparr>Float64 = 12, Valid = True\<rparr>)) = (\<lparr>Float64 = 12, Valid = True\<rparr>, None)"
    using rt [where jf = "\<lparr>Float64 = 12, Valid = True\<rparr>" and rjf = "\<lparr>Float64 = 0, Valid = False\<rparr>" and L = whole_numbers
        and b' = "''12''",
        THEN conjunct2, THEN conjunct2, THEN conjunct2, THEN conjunct2, THEN conjunct2, THEN conjunct2,
        THEN conjunct2, THEN conjunct2, THEN mp, OF h14]
    by simp
  show ?thesis
    by (rule conjI [OF w1 conjI [OF w2 conjI [OF w3 conjI [OF w4 conjI [OF w5 conjI [OF w6 conjI [OF w7 conjI [OF w8 conjI [OF w9 conjI [OF w10 conjI [OF w11 conjI [OF w12 conjI [OF w13 w14]]]]]]]]]]]]])
qed

section \<open>Comparing times\<close>

text \<open>
  The two comparisons, by which of the two times is zero. \<open>BeforeOrEqual\<close> has a guard for
  each of the two mixed cases, \<open>AfterOrEqual\<close> for one of them only: with a zero receiver and
  a non-zero argument it compares the two instants.
\<close>

lemma AfterOrEqual_BeforeOrEqual_cases:
  "((IsZero (Time nt) \<longleftrightarrow> IsZero (Time t)) \<longrightarrow>
       (AfterOrEqual nt t \<longleftrightarrow> Time nt = Time t \<or> After (Time nt) (Time t))
     \<and> (BeforeOrEqual nt t \<longleftrightarrow> Time nt = Time t \<or> Before (Time nt) (Time t)))
   \<and> (\<not> IsZero (Time nt) \<and> IsZero (Time t) \<longrightarrow> \<not> AfterOrEqual nt t \<and> BeforeOrEqual nt t)
   \<and> (IsZero (Time nt) \<and> \<not> IsZero (Time t) \<longrightarrow>
         \<not> BeforeOrEqual nt t \<and> (AfterOrEqual nt t \<longleftrightarrow> After (Time nt) (Time t)))"
  by (auto simp: AfterOrEqual_def BeforeOrEqual_def)

text \<open>
  Claim C8. When exactly one of the two times is the zero value, the comparison is settled
  by which side is zero and not by the instants. The three guards of the code let the zero
  time, the instant of year 1, count as the later one: January 1, 2020 is before or equal to
  the zero time, the zero time is not before or equal to January 1, 2020, and January 1,
  2020 is not after or equal to the zero time. By the same rule the zero time is after or
  equal to January 1, 2020. \<open>AfterOrEqual\<close> has no guard for the zero receiver and answers
  false there, by the comparison of the instants.
\<close>

theorem AfterOrEqual_zero_receiver:
  "IsZero zero_Time \<and> \<not> IsZero midnight_2020
   \<and> AfterOrEqual \<lparr>Time = zero_Time, Valid = True\<rparr> \<lparr>Time = midnight_2020, Valid = True\<rparr> = False
   \<and> BeforeOrEqual \<lparr>Time = midnight_2020, Valid = True\<rparr> \<lparr>Time = zero_Time, Valid = True\<rparr> = True
   \<and> BeforeOrEqual \<lparr>Time = zero_Time, Valid = True\<rparr> \<lparr>Time = midnight_2020, Valid = True\<rparr> = False
   \<and> AfterOrEqual \<lparr>Time = midnight_2020, Valid = True\<rparr> \<lparr>Time = zero_Time, Valid = True\<rparr> = False"
  by (simp add: AfterOrEqual_def BeforeOrEqual_def IsZero_def After_def Before_def zero_Time_def
      midnight_2020_def)

section \<open>Scanning a float\<close>

lemma exact_arith_simps:
  "a_zero (exact_arith w) = 0" "a_eq_zero (exact_arith w) x = (x = 0)" "a_IsNaN (exact_arith w) x = False"
  "a_Pow10 (exact_arith w) n = 10 ^ n" "a_mul (exact_arith w) x y = x * y" "a_div (exact_arith w) x y = x / y"
  "a_trunc (exact_arith w) x = Some (if 0 \<le> x then \<lfloor>x\<rfloor> else \<lceil>x\<rceil>)"
  "a_float64 (exact_arith w) k = of_int k" "a_int_overflow (exact_arith w) x = w"
  by (simp_all add: exact_arith_def)

text \<open>The nil value resets the receiver, and an error of the driver conversion leaves it.\<close>

lemma NullFloat_Scan_nil:
  "NullFloat_Scan A convertAssign nf None = (\<lparr>Float64 = a_zero A, Valid = False\<rparr>, None)"
  by (simp add: NullFloat_Scan_def)

lemma NullFloat_Scan_error:
  "convertAssign v (a_zero A) = (x, Some err) \<Longrightarrow>
   NullFloat_Scan A convertAssign nf (Some v) = (nf, Some err)"
  by (simp add: NullFloat_Scan_def sql_NullFloat64_Scan_def)

text \<open>A scanned NaN is stored as 0 with the validity flag false, without error.\<close>

lemma NullFloat_Scan_NaN:
  "convertAssign v (a_zero A) = (x, None) \<Longrightarrow> a_IsNaN A x \<Longrightarrow>
   NullFloat_Scan A convertAssign nf (Some v) = (nf\<lparr>Float64 := a_zero A, NullFloat64.Valid := False\<rparr>, None)"
  by (simp add: NullFloat_Scan_def sql_NullFloat64_Scan_def)

lemma sint_word_of_int_64:
  "- (2 ^ 63) \<le> k \<Longrightarrow> k < 2 ^ 63 \<Longrightarrow> sint (word_of_int k :: 64 word) = k"
  by (simp add: sint_sbintrunc' signed_take_bit_int_eq_self)

text \<open>
  A number \<open>x\<close> that is no NaN is stored as the integer part of \<open>x * 10^4\<close>, divided by
  \<open>10^4\<close>, when that integer part is a 64-bit integer.
\<close>

lemma NullFloat_Scan_in_range:
  assumes "convertAssign v (a_zero A) = (x, None)" and "\<not> a_IsNaN A x"
    and "a_trunc A (a_mul A x (a_Pow10 A 4)) = Some k" and "- (2 ^ 63) \<le> k" and "k < 2 ^ 63"
  shows "NullFloat_Scan A convertAssign nf (Some v) =
     (nf\<lparr>Float64 := a_div A (a_float64 A k) (a_Pow10 A 4),
         NullFloat64.Valid := \<not> a_eq_zero A (a_div A (a_float64 A k) (a_Pow10 A 4))\<rparr>,
      None)"
  using assms
  by (simp add: NullFloat_Scan_def sql_NullFloat64_Scan_def int_of_float64_def float64_of_int_def
      sint_word_of_int_64 Let_def)

text \<open>
  When it is not, the stored number comes from what the conversion gives out of range, and
  in every case without an error it is a 64-bit integer divided by \<open>10^4\<close>.
\<close>

lemma NullFloat_Scan_out_of_range:
  assumes "convertAssign v (a_zero A) = (x, None)" and "\<not> a_IsNaN A x"
    and "a_trunc A (a_mul A x (a_Pow10 A 4)) = Some k" and "\<not> (- (2 ^ 63) \<le> k \<and> k < 2 ^ 63)"
  shows "Float64 (fst (NullFloat_Scan A convertAssign nf (Some v))) =
     a_div A (a_float64 A (sint (a_int_overflow A (a_mul A x (a_Pow10 A 4))))) (a_Pow10 A 4)"
  using assms
  by (auto simp: NullFloat_Scan_def sql_NullFloat64_Scan_def int_of_float64_def float64_of_int_def Let_def)

lemma NullFloat_Scan_stored:
  assumes "convertAssign v (a_zero A) = (x, None)" and "\<not> a_IsNaN A x"
  shows "\<exists>n :: 64 word. Float64 (fst (NullFloat_Scan A convertAssign nf (Some v))) =
     a_div A (a_float64 A (sint n)) (a_Pow10 A 4)"
  using assms
  by (auto simp: NullFloat_Scan_def sql_NullFloat64_Scan_def float64_of_int_def Let_def)

lemma trunc_10_19:
  "a_trunc (exact_arith w) (a_mul (exact_arith w) (10 ^ 15) (a_Pow10 (exact_arith w) 4)) = Some (10 ^ 19)"
  by (simp add: exact_arith_simps)

text \<open>
  With the smallest 64-bit integer as the result of a conversion out of range, which is
  what the conversion instruction of amd64 gives.
\<close>

lemma NullFloat_Scan_amd64:
  "NullFloat_Scan (exact_arith (- 9223372036854775808)) assign_float64 \<lparr>Float64 = 0, Valid = False\<rparr> (Some (10 ^ 15)) =
     (\<lparr>Float64 = - 9223372036854775808 / 10000, Valid = True\<rparr>, None)"
  by (simp add: NullFloat_Scan_def sql_NullFloat64_Scan_def assign_float64_def int_of_float64_def
      float64_of_int_def exact_arith_simps)

text \<open>
  Claim C9. \<open>Scan\<close> stores a number truncated toward zero to 4 decimal places: the integer
  part of \<open>value * 10^4\<close>, divided by \<open>10^4\<close>. At the value \<open>10^15\<close> that is \<open>10^15\<close> itself:
  the integer part of \<open>10^15 * 10^4\<close> is \<open>10^19\<close>. \<open>Scan\<close> takes the integer part by the
  conversion \<open>int(...)\<close> to 64 bits, which \<open>10^19\<close> exceeds, and checks no range: whatever 64-bit
  integer \<open>w\<close> the conversion gives, \<open>Scan\<close> returns no error and stores \<open>w / 10^4\<close>, which is
  not \<open>10^15\<close>.
\<close>

theorem NullFloat_Scan_overflow:
  "Float64 (fst (NullFloat_Scan (exact_arith w) assign_float64 nf (Some (10 ^ 15)))) = of_int (sint w) / 10 ^ 4
   \<and> Float64 (fst (NullFloat_Scan (exact_arith w) assign_float64 nf (Some (10 ^ 15)))) \<noteq> 10 ^ 15
   \<and> snd (NullFloat_Scan (exact_arith w) assign_float64 nf (Some (10 ^ 15))) = None
   \<and> a_trunc (exact_arith w) (a_mul (exact_arith w) (10 ^ 15) (a_Pow10 (exact_arith w) 4)) = Some (10 ^ 19)
   \<and> a_div (exact_arith w) (a_float64 (exact_arith w) (10 ^ 19)) (a_Pow10 (exact_arith w) 4) = 10 ^ 15"
proof -
  let ?A = "exact_arith w"
  have c: "assign_float64 (10 ^ 15 :: rat) (a_zero ?A) = (10 ^ 15, None)"
    by (simp add: assign_float64_def)
  have nan: "\<not> a_IsNaN ?A (10 ^ 15)" by (simp add: exact_arith_simps)
  have out: "\<not> (- (2 ^ 63) \<le> (10 ^ 19 :: int) \<and> (10 ^ 19 :: int) < 2 ^ 63)"
    by simp
  have stored: "Float64 (fst (NullFloat_Scan ?A assign_float64 nf (Some (10 ^ 15)))) = of_int (sint w) / 10 ^ 4"
    using NullFloat_Scan_out_of_range [where A = ?A and convertAssign = assign_float64 and v = "10 ^ 15"
        and x = "10 ^ 15" and nf = nf and k = "10 ^ 19", OF c nan trunc_10_19 out]
    by (simp add: exact_arith_simps)
  have "sint w < 2 ^ 63" using sint_lt [of w] by simp
  then have "sint w \<noteq> 10 ^ 19" by simp
  then have "(of_int (sint w) :: rat) \<noteq> of_int (10 ^ 19)" by (simp only: of_int_eq_iff) simp
  then have ne: "(of_int (sint w) :: rat) / 10 ^ 4 \<noteq> 10 ^ 15" by (simp add: field_simps)
  have noerr: "snd (NullFloat_Scan ?A assign_float64 nf (Some (10 ^ 15))) = None"
    using c nan by (simp add: NullFloat_Scan_def sql_NullFloat64_Scan_def Let_def)
  have expect: "a_div ?A (a_float64 ?A (10 ^ 19)) (a_Pow10 ?A 4) = 10 ^ 15"
    by (simp add: exact_arith_simps)
  show ?thesis using stored ne noerr trunc_10_19 [of w] expect by simp
qed

end
